theory Spec2Isabelle
  imports Main
begin

section \<open>Values exchanged with the op-graph framework\<close>

text \<open>
  The layer constructors of \<open>oneflow/python/ops/layers.py\<close> validate their arguments and
  then call into the op-graph framework (\<open>flow.get_variable\<close>, \<open>flow.reshape\<close>,
  \<open>flow.matmul\<close>, \<open>flow.nn.conv2d\<close>, \<open>flow.nn.bias_add\<close>, \<open>flow.constant\<close>,
  \<open>flow.transpose\<close>, \<open>flow.user_op_builder\<close>), which is not part of the file.  The
  framework is a parameter of the model: every call into it is recorded, in order, in a
  trace, the framework decides whether the call raises, and it infers the shape and the
  element type of what the call returns.
\<close>

datatype error =
    AssertionError
  | ValueError string
  | IndexError
  | TypeError
  | OverflowError
  | FrameworkError

datatype dtype = Float16 | Float32 | OtherDType string

datatype distribute = Auto | Broadcast | Split int

text \<open>A Python float is kept symbolic: a literal of the caller, or \<open>float(n)\<close> of an int.\<close>

datatype pyfloat = FloatLit string | FloatOfInt int

datatype pynum = NumInt int | NumFloat pyfloat

text \<open>
  A Python value as \<open>float()\<close> sees it: an int, a float, a string together with the
  float it parses to (\<open>None\<close> when it does not parse), or a value of any other type.
\<close>

datatype pyval = IntVal int | FloatVal pyfloat | StrVal string "pyfloat option" | OtherVal

text \<open>
  \<open>float(v)\<close>.  An int converts unless rounding it to a double overflows, which is
  from \<open>2 ** 1024 - 2 ** 970\<close> on; a string that does not parse raises \<open>ValueError\<close>
  (its message, which quotes the string, is cut short here); \<open>None\<close>, a list and the
  like raise \<open>TypeError\<close>.
\<close>

definition float_limit :: int where
  "float_limit = 2 ^ 1024 - 2 ^ 970"

fun float :: "pyval \<Rightarrow> error + pyfloat" where
  "float (IntVal n) = (if float_limit \<le> abs n then Inl OverflowError else Inr (FloatOfInt n))"
| "float (FloatVal f) = Inr f"
| "float (StrVal s (Some f)) = Inr f"
| "float (StrVal s None) = Inl (ValueError ''could not convert string to float'')"
| "float OtherVal = Inl TypeError"

datatype initializer =
    ConstantInitializer pynum
  | ZerosInitializer
  | OnesInitializer
  | GivenInitializer string

type_synonym regularizer = string

text \<open>
  An argument documented as ``an integer or a tuple/list of integers'': \<open>IntArg\<close> passes
  \<open>isinstance(v, int)\<close>, \<open>SeqArg\<close> passes \<open>isinstance(v, (list, tuple))\<close>, \<open>OtherArg\<close>
  stands for a value of any other type.
\<close>

datatype pyarg = IntArg int | SeqArg "int list" | OtherArg

text \<open>
  The \<open>size\<close> of \<open>upsample\<close>: an int, a list or tuple of values of any kind, or a
  value of another type.
\<close>

datatype size_arg = SizeInt int | SizeSeq "pyval list" | SizeOther

datatype attr = AttrBool bool | AttrInt int | AttrFloat pyfloat | AttrStr string

text \<open>The keyword arguments of one \<open>flow.get_variable\<close> call; \<open>None\<close> is a keyword left out.\<close>

record var_conf =
  v_name :: string
  v_shape :: "int list"
  v_dtype :: dtype
  v_initializer :: initializer
  v_regularizer :: "regularizer option"
  v_trainable :: bool
  v_model_name :: "string option"
  v_distribute :: "distribute option"

text \<open>
  A blob is a handle: its \<open>shape\<close> and \<open>dtype\<close> attributes, and where it comes from.  A
  call is one call into the framework, or one application of the caller's activation
  callback, with the arguments the source passes.
\<close>

datatype blob = Blob (shape: "int list") (dtype: dtype) (origin: origin)
and origin =
    Placeholder string
  | Output call nat
  | WithDistribute blob distribute
and call =
    GetVariable var_conf
  | Reshape blob "int list"
  | MatMul blob blob bool string
  | BiasAdd blob blob "string option" string
  | Conv2D blob blob pyarg string string pyarg int "string option"
  | Constant int dtype "int list"
  | Transpose blob "int list"
  | UserOp string string "(string \<times> blob list) list" "string list" "(string \<times> attr) list"
  | Callback string blob string

fun is_variable :: "call \<Rightarrow> bool" where
  "is_variable (GetVariable _) = True"
| "is_variable _ = False"

fun is_callback :: "call \<Rightarrow> bool" where
  "is_callback (Callback _ _ _) = True"
| "is_callback _ = False"

definition is_node :: "call \<Rightarrow> bool" where
  "is_node c = (\<not> is_variable c \<and> \<not> is_callback c)"

fun n_outputs :: "call \<Rightarrow> nat" where
  "n_outputs (UserOp _ _ _ outs _) = length outs"
| "n_outputs _ = 1"

record graph =
  trace :: "call list"
  id_count :: nat

record framework =
  accepts :: "graph \<Rightarrow> call \<Rightarrow> bool"
  infer :: "call \<Rightarrow> nat \<Rightarrow> int list \<times> dtype"
  unique_str :: "nat \<Rightarrow> string \<Rightarrow> string"
  is_trainable :: bool

section \<open>Raising and sequencing\<close>

type_synonym 'a M = "graph \<Rightarrow> (error + 'a) \<times> graph"

definition return :: "'a \<Rightarrow> 'a M" where
  "return x g = (Inr x, g)"

definition raise :: "error \<Rightarrow> 'a M" where
  "raise e g = (Inl e, g)"

definition bindM :: "'a M \<Rightarrow> ('a \<Rightarrow> 'b M) \<Rightarrow> 'b M" where
  "bindM m f g = (case m g of (Inl e, g') \<Rightarrow> (Inl e, g') | (Inr x, g') \<Rightarrow> f x g')"

text \<open>A computation that may raise and does not touch the graph.\<close>

definition lift :: "error + 'a \<Rightarrow> 'a M" where
  "lift r g = (r, g)"

definition py_assert :: "bool \<Rightarrow> unit M" where
  "py_assert b = (if b then return () else raise AssertionError)"

text \<open>Python indexing of a tuple or list: a negative index counts from the end.\<close>


definition index :: "'a list \<Rightarrow> int \<Rightarrow> 'a M" where
  "index xs i =
     (let n = int (length xs); j = (if i < 0 then n + i else i)
      in if 0 \<le> j \<and> j < n then return (xs ! nat j) else raise IndexError)"

text \<open>\<open>str.upper()\<close> on the ASCII letters; every other character is left as it is.\<close>

definition upper_char :: "char \<Rightarrow> char" where
  "upper_char c =
     (case map_of (zip ''abcdefghijklmnopqrstuvwxyz'' ''ABCDEFGHIJKLMNOPQRSTUVWXYZ'') c of
        Some u \<Rightarrow> u
      | None \<Rightarrow> c)"

definition upper :: "string \<Rightarrow> string" where
  "upper s = map upper_char s"

section \<open>Calls into the framework\<close>

definition out_blob :: "framework \<Rightarrow> call \<Rightarrow> nat \<Rightarrow> blob" where
  "out_blob fw c i = (case infer fw c i of (s, d) \<Rightarrow> Blob s d (Output c i))"

definition invoke_list :: "framework \<Rightarrow> call \<Rightarrow> blob list M" where
  "invoke_list fw c g =
     (if accepts fw g c
      then (Inr (map (out_blob fw c) [0..<n_outputs c]), g\<lparr>trace := trace g @ [c]\<rparr>)
      else (Inl FrameworkError, g))"

definition invoke :: "framework \<Rightarrow> call \<Rightarrow> blob M" where
  "invoke fw c g =
     (if accepts fw g c
      then (Inr (out_blob fw c 0), g\<lparr>trace := trace g @ [c]\<rparr>)
      else (Inl FrameworkError, g))"

definition UniqueStr :: "framework \<Rightarrow> string \<Rightarrow> string M" where
  "UniqueStr fw prefix g =
     (Inr (unique_str fw (id_count g) prefix), g\<lparr>id_count := Suc (id_count g)\<rparr>)"

definition with_distribute :: "blob \<Rightarrow> distribute \<Rightarrow> blob" where
  "with_distribute b d = Blob (shape b) (dtype b) (WithDistribute b d)"

section \<open>conv2d\<close>

text \<open>
  Each constructor takes its arguments as one record, the fields named after the
  parameters of the \<open>def\<close> behind a prefix for the function.  An optional argument is an
  \<open>option\<close>, \<open>None\<close> being Python's \<open>None\<close>; an activation is the name of the callable.
\<close>

record conv2d_args =
  cv_inputs :: blob
  cv_filters :: int
  cv_kernel_size :: pyarg
  cv_strides :: pyarg
  cv_padding :: string
  cv_data_format :: string
  cv_dilation_rate :: pyarg
  cv_groups :: pyarg
  cv_activation :: "string option"
  cv_use_bias :: bool
  cv_kernel_initializer :: "initializer option"
  cv_bias_initializer :: "initializer option"
  cv_kernel_regularizer :: "regularizer option"
  cv_bias_regularizer :: "regularizer option"
  cv_trainable :: bool
  cv_name :: "string option"
  cv_weight_name :: "string option"
  cv_bias_name :: "string option"

text \<open>Lines 188 to 192: \<open>kernel_size\<close> as a tuple.\<close>

fun conv2d_kernel_size :: "pyarg \<Rightarrow> int list M" where
  "conv2d_kernel_size (IntArg k) = return [k, k]"
| "conv2d_kernel_size (SeqArg ks) = return ks"
| "conv2d_kernel_size OtherArg = raise AssertionError"

text \<open>Line 194: \<open>assert isinstance(groups, int)\<close>.\<close>

fun conv2d_groups :: "pyarg \<Rightarrow> int M" where
  "conv2d_groups (IntArg n) = return n"
| "conv2d_groups _ = raise AssertionError"

text \<open>Lines 198 to 213: the checks that depend on \<open>data_format\<close>, and \<open>weight_shape\<close>.\<close>

definition conv2d_weight_shape :: "conv2d_args \<Rightarrow> int list \<Rightarrow> int \<Rightarrow> int list M" where
  "conv2d_weight_shape a kernel_size groups =
     (if upper (cv_data_format a) = ''NCHW'' then
        bindM (index (shape (cv_inputs a)) 1) (\<lambda>c.
        bindM (py_assert (groups \<le> c)) (\<lambda>_.
        bindM (py_assert (c mod groups = 0)) (\<lambda>_.
        return ([cv_filters a, c div groups] @ kernel_size))))
      else if upper (cv_data_format a) = ''NHWC'' then
        bindM (py_assert (groups = 1)) (\<lambda>_.
        bindM (index (shape (cv_inputs a)) 3) (\<lambda>c.
        bindM (py_assert (groups \<le> c)) (\<lambda>_.
        bindM (py_assert (c mod groups = 0)) (\<lambda>_.
        bindM (index kernel_size 0) (\<lambda>k0.
        bindM (index kernel_size 1) (\<lambda>k1.
        return [cv_filters a, k0, k1, c div groups]))))))
      else raise (ValueError ''data_format must be in NCHW or NHWC''))"

text \<open>Lines 187 to 213: everything \<open>conv2d\<close> does before its first framework call.\<close>

definition conv2d_validate :: "framework \<Rightarrow> conv2d_args \<Rightarrow> (string \<times> int \<times> int list) M" where
  "conv2d_validate fw a =
     bindM (case cv_name a of Some n \<Rightarrow> return n | None \<Rightarrow> UniqueStr fw ''Conv2D_'')
       (\<lambda>name_prefix.
     bindM (conv2d_kernel_size (cv_kernel_size a)) (\<lambda>kernel_size.
     bindM (conv2d_groups (cv_groups a)) (\<lambda>groups.
     bindM (py_assert (groups > 0)) (\<lambda>_.
     bindM (py_assert (groups \<le> cv_filters a)) (\<lambda>_.
     bindM (py_assert (cv_filters a mod groups = 0)) (\<lambda>_.
     bindM (conv2d_weight_shape a kernel_size groups) (\<lambda>weight_shape.
     return (name_prefix, groups, weight_shape))))))))"

definition or_default :: "'a option \<Rightarrow> 'a \<Rightarrow> 'a" where
  "or_default v d = (case v of Some x \<Rightarrow> x | None \<Rightarrow> d)"

text \<open>\<open>s if s else d\<close> on an optional string: \<open>None\<close> and the empty string are both falsy.\<close>

definition if_truthy :: "string option \<Rightarrow> string \<Rightarrow> string" where
  "if_truthy v d = (case v of Some s \<Rightarrow> (if s \<noteq> [] then s else d) | None \<Rightarrow> d)"

text \<open>Lines 215 to 255: the weight variable, the convolution, the bias and the activation.\<close>

definition conv2d_build ::
  "framework \<Rightarrow> conv2d_args \<Rightarrow> string \<Rightarrow> int \<Rightarrow> int list \<Rightarrow> blob M" where
  "conv2d_build fw a name_prefix groups weight_shape =
     bindM (invoke fw (GetVariable
       \<lparr>v_name = if_truthy (cv_weight_name a) (name_prefix @ ''-weight''),
        v_shape = weight_shape,
        v_dtype = dtype (cv_inputs a),
        v_initializer =
          or_default (cv_kernel_initializer a) (ConstantInitializer (NumInt 0)),
        v_regularizer = cv_kernel_regularizer a,
        v_trainable = cv_trainable a,
        v_model_name = Some ''weight'',
        v_distribute = None\<rparr>)) (\<lambda>weight.
     bindM (invoke fw (Conv2D (cv_inputs a) weight (cv_strides a) (cv_padding a)
       (cv_data_format a) (cv_dilation_rate a) groups (cv_name a))) (\<lambda>out.
     bindM (if cv_use_bias a then
         bindM (invoke fw (GetVariable
           \<lparr>v_name = if_truthy (cv_bias_name a) (name_prefix @ ''-bias''),
            v_shape = [cv_filters a],
            v_dtype = dtype (cv_inputs a),
            v_initializer =
              or_default (cv_bias_initializer a) (ConstantInitializer (NumInt 0)),
            v_regularizer = cv_bias_regularizer a,
            v_trainable = cv_trainable a,
            v_model_name = Some ''bias'',
            v_distribute = None\<rparr>)) (\<lambda>bias.
         invoke fw (BiasAdd out bias (Some (cv_data_format a)) (name_prefix @ ''-bias_add'')))
       else return out) (\<lambda>out.
     bindM (case cv_activation a of
         Some f \<Rightarrow> invoke fw (Callback f out (name_prefix @ ''-activation''))
       | None \<Rightarrow> return out) (\<lambda>out.
     return out))))"

definition conv2d :: "framework \<Rightarrow> conv2d_args \<Rightarrow> blob M" where
  "conv2d fw a =
     bindM (conv2d_validate fw a) (\<lambda>(name_prefix, groups, weight_shape).
     conv2d_build fw a name_prefix groups weight_shape)"

section \<open>dense\<close>

record dense_args =
  dn_inputs :: blob
  dn_units :: int
  dn_activation :: "string option"
  dn_use_bias :: bool
  dn_kernel_initializer :: "initializer option"
  dn_bias_initializer :: "initializer option"
  dn_kernel_regularizer :: "regularizer option"
  dn_bias_regularizer :: "regularizer option"
  dn_trainable :: bool
  dn_name :: "string option"
  dn_model_distribute :: distribute

text \<open>
  Lines 67 to 81.  \<open>distribute_util.auto()\<close>, \<open>broadcast()\<close> and \<open>split(0)\<close> return the
  same object at every call, so that \<open>is\<close> on them is equality of the \<open>distribute\<close> value.
  The reshape of line 72 comes before the assertions on \<open>model_distribute\<close>.
\<close>

definition dense_prepare :: "framework \<Rightarrow> dense_args \<Rightarrow> (string \<times> blob) M" where
  "dense_prepare fw a =
     (let in_shape = shape (dn_inputs a); in_num_axes = int (length in_shape) in
      bindM (py_assert (in_num_axes \<ge> 2)) (\<lambda>_.
      bindM (case dn_name a of Some n \<Rightarrow> return n | None \<Rightarrow> UniqueStr fw ''Dense_'')
        (\<lambda>name_prefix.
      bindM (if in_num_axes > 2
             then bindM (index in_shape (- 1)) (\<lambda>last.
                  invoke fw (Reshape (dn_inputs a) [- 1, last]))
             else return (dn_inputs a)) (\<lambda>inputs.
      bindM (py_assert (dn_model_distribute a = Auto
                        \<or> dn_model_distribute a = Broadcast
                        \<or> dn_model_distribute a = Split 0)) (\<lambda>_.
      bindM (if dn_model_distribute a = Split 0
             then py_assert (in_num_axes = 2) else return ()) (\<lambda>_.
      return (name_prefix, inputs)))))))"

text \<open>Lines 83 to 126.\<close>

definition dense_build :: "framework \<Rightarrow> dense_args \<Rightarrow> string \<Rightarrow> blob \<Rightarrow> blob M" where
  "dense_build fw a name_prefix inputs =
     (let in_shape = shape (dn_inputs a); in_num_axes = int (length in_shape) in
      bindM (index (shape inputs) 1) (\<lambda>in1.
      bindM (invoke fw (GetVariable
        \<lparr>v_name = name_prefix @ ''-weight'',
         v_shape = [dn_units a, in1],
         v_dtype = dtype inputs,
         v_initializer =
           or_default (dn_kernel_initializer a) (ConstantInitializer (NumInt 0)),
         v_regularizer = dn_kernel_regularizer a,
         v_trainable = dn_trainable a,
         v_model_name = Some ''weight'',
         v_distribute = Some (dn_model_distribute a)\<rparr>)) (\<lambda>weight.
      bindM (return (with_distribute weight (dn_model_distribute a))) (\<lambda>weight.
      bindM (invoke fw (MatMul inputs weight True (name_prefix @ ''_matmul''))) (\<lambda>out.
      bindM (if dn_use_bias a then
          bindM (invoke fw (GetVariable
            \<lparr>v_name = name_prefix @ ''-bias'',
             v_shape = [dn_units a],
             v_dtype = dtype inputs,
             v_initializer =
               or_default (dn_bias_initializer a) (ConstantInitializer (NumInt 0)),
             v_regularizer = dn_bias_regularizer a,
             v_trainable = dn_trainable a,
             v_model_name = Some ''bias'',
             v_distribute = Some (dn_model_distribute a)\<rparr>)) (\<lambda>bias.
          bindM (return (with_distribute bias (dn_model_distribute a))) (\<lambda>bias.
          invoke fw (BiasAdd out bias None (name_prefix @ ''_bias_add''))))
        else return out) (\<lambda>out.
      bindM (case dn_activation a of
          Some f \<Rightarrow> invoke fw (Callback f out (name_prefix @ ''_activation''))
        | None \<Rightarrow> return out) (\<lambda>out.
      bindM (if in_num_axes > 2
             then invoke fw (Reshape out (butlast in_shape @ [dn_units a]))
             else return out) (\<lambda>out.
      return out))))))))"

definition dense :: "framework \<Rightarrow> dense_args \<Rightarrow> blob M" where
  "dense fw a =
     bindM (dense_prepare fw a) (\<lambda>(name_prefix, inputs).
     dense_build fw a name_prefix inputs)"

section \<open>layer_norm and its gradients\<close>

text \<open>\<open>xs[b:]\<close>: a start below \<open>-len(xs)\<close> or above \<open>len(xs)\<close> is clipped, nothing raises.\<close>

definition slice_from :: "'a list \<Rightarrow> int \<Rightarrow> 'a list" where
  "slice_from xs b =
     (let n = int (length xs); s = (if b < 0 then max 0 (n + b) else min b n)
      in drop (nat s) xs)"

record layer_norm_args =
  ln_inputs :: blob
  ln_center :: bool
  ln_scale :: bool
  ln_trainable :: bool
  ln_begin_norm_axis :: int
  ln_begin_params_axis :: int
  ln_epsilon :: pyfloat
  ln_name :: "string option"

text \<open>
  The builder's \<open>Input\<close>, \<open>Output\<close> and \<open>Attr\<close> methods extend the builder they are
  called on; the op is one framework call, made by \<open>Build().InferAndTryRun()\<close>, with the
  inputs, outputs and attributes in the order the source adds them.
\<close>

definition layer_norm :: "framework \<Rightarrow> layer_norm_args \<Rightarrow> blob M" where
  "layer_norm fw a =
     bindM (case ln_name a of Some n \<Rightarrow> return n | None \<Rightarrow> UniqueStr fw ''LayerNorm_'')
       (\<lambda>name.
     (let trainable = (if ln_center a = False \<and> ln_scale a = False then False
                       else ln_trainable a);
          param_shape = slice_from (shape (ln_inputs a)) (ln_begin_params_axis a) in
      bindM (if ln_center a then
          bindM (invoke fw (GetVariable
            \<lparr>v_name = name @ ''-beta'',
             v_shape = param_shape,
             v_dtype = dtype (ln_inputs a),
             v_initializer = ConstantInitializer (NumFloat (FloatLit ''0.0'')),
             v_regularizer = None,
             v_trainable = trainable,
             v_model_name = Some ''beta'',
             v_distribute = Some Broadcast\<rparr>)) (\<lambda>beta.
          return [(''beta'', [beta])])
        else return []) (\<lambda>beta_input.
      bindM (if ln_scale a then
          bindM (invoke fw (GetVariable
            \<lparr>v_name = name @ ''-gamma'',
             v_shape = param_shape,
             v_dtype = dtype (ln_inputs a),
             v_initializer = ConstantInitializer (NumFloat (FloatLit ''1.0'')),
             v_regularizer = None,
             v_trainable = trainable,
             v_model_name = Some ''gamma'',
             v_distribute = Some Broadcast\<rparr>)) (\<lambda>gamma.
          return ([(''gamma'', [gamma])], [''normalized'']))
        else return ([], [])) (\<lambda>(gamma_input, gamma_output).
      bindM (invoke_list fw (UserOp name ''layer_norm''
          ([(''x'', [ln_inputs a])] @ beta_input @ gamma_input)
          ([''y'', ''mean'', ''inv_variance''] @ gamma_output)
          [(''center'', AttrBool (ln_center a)),
           (''scale'', AttrBool (ln_scale a)),
           (''begin_norm_axis'', AttrInt (ln_begin_norm_axis a)),
           (''begin_params_axis'', AttrInt (ln_begin_params_axis a)),
           (''epsilon'', AttrFloat (ln_epsilon a))])) (\<lambda>blobs.
      index blobs 0)))))"

record layer_norm_grad_args =
  lg_dy :: blob
  lg_x :: blob
  lg_mean :: blob
  lg_inv_variance :: blob
  lg_begin_norm_axis :: int
  lg_name :: "string option"

definition layer_norm_grad :: "framework \<Rightarrow> layer_norm_grad_args \<Rightarrow> blob M" where
  "layer_norm_grad fw a =
     bindM (case lg_name a of Some n \<Rightarrow> return n | None \<Rightarrow> UniqueStr fw ''LayerNormGrad_'')
       (\<lambda>name.
     bindM (invoke_list fw (UserOp name ''layer_norm_grad''
         [(''dy'', [lg_dy a]), (''x'', [lg_x a]), (''mean'', [lg_mean a]),
          (''inv_variance'', [lg_inv_variance a])]
         [''dx'']
         [(''begin_norm_axis'', AttrInt (lg_begin_norm_axis a)),
          (''epsilon'', AttrFloat (FloatLit ''1e-5''))])) (\<lambda>blobs.
     index blobs 0))"

record layer_norm_param_grad_args =
  lp_dy :: blob
  lp_norm :: blob
  lp_gamma :: blob
  lp_begin_params_axis :: int
  lp_name :: "string option"

text \<open>Unpacking into four names raises \<open>ValueError\<close> unless the list has four elements.\<close>

fun unpack4 :: "'a list \<Rightarrow> ('a \<times> 'a \<times> 'a \<times> 'a) M" where
  "unpack4 [a, b, c, d] = return (a, b, c, d)"
| "unpack4 _ = raise (ValueError ''unpack'')"

definition layer_norm_param_grad ::
  "framework \<Rightarrow> layer_norm_param_grad_args \<Rightarrow> (blob \<times> blob \<times> blob) M" where
  "layer_norm_param_grad fw a =
     bindM (case lp_name a of Some n \<Rightarrow> return n | None \<Rightarrow> UniqueStr fw ''LayerNormGrad_'')
       (\<lambda>name.
     bindM (invoke_list fw (UserOp name ''layer_norm_param_grad''
         [(''dy'', [lp_dy a]), (''normalized'', [lp_norm a]), (''gamma'', [lp_gamma a])]
         [''normalized_diff'', ''beta_diff'', ''gamma_diff'', ''reduce_buf'']
         [(''begin_params_axis'', AttrInt (lp_begin_params_axis a))])) (\<lambda>blobs.
     bindM (unpack4 blobs) (\<lambda>(normalized_diff, beta_diff, gamma_diff, reduce_buf).
     return (normalized_diff, beta_diff, gamma_diff))))"

section \<open>batch_normalization\<close>

record batch_normalization_args =
  bn_inputs :: blob
  bn_axis :: int
  bn_momentum :: pyfloat
  bn_epsilon :: pyfloat
  bn_center :: bool
  bn_scale :: bool
  bn_beta_initializer :: "initializer option"
  bn_gamma_initializer :: "initializer option"
  bn_beta_regularizer :: "regularizer option"
  bn_gamma_regularizer :: "regularizer option"
  bn_moving_mean_initializer :: "initializer option"
  bn_moving_variance_initializer :: "initializer option"
  bn_trainable :: bool
  bn_training :: bool
  bn_name :: "string option"

text \<open>
  Lines 449 to 460.  \<open>i or d\<close> on an optional initializer takes \<open>d\<close> for \<open>None\<close>; an
  initializer message is truthy.  \<open>IsTrainable()\<close> of the enclosing global function is
  the framework's \<open>is_trainable\<close>.
\<close>

definition batch_normalization_prepare ::
  "framework \<Rightarrow> batch_normalization_args \<Rightarrow> (int \<times> int list \<times> dtype \<times> bool \<times> string) M" where
  "batch_normalization_prepare fw a =
     (let n = int (length (shape (bn_inputs a))) in
      bindM (py_assert (bn_axis a \<ge> - n \<and> bn_axis a < n)) (\<lambda>_.
      bindM (return (if bn_axis a < 0 then bn_axis a + n else bn_axis a)) (\<lambda>axis.
      bindM (index (shape (bn_inputs a)) axis) (\<lambda>d.
      bindM (return [d]) (\<lambda>params_shape.
      bindM (return (if dtype (bn_inputs a) = Float16 then Float32
                     else dtype (bn_inputs a))) (\<lambda>params_dtype.
      bindM (return (if \<not> is_trainable fw \<or> \<not> bn_trainable a then False
                     else bn_training a)) (\<lambda>training.
      bindM (case bn_name a of Some n \<Rightarrow> return n | None \<Rightarrow> UniqueStr fw ''BatchNorm_'')
        (\<lambda>name.
      return (axis, params_shape, params_dtype, training, name)))))))))"

text \<open>Lines 462 to 522.\<close>

definition batch_normalization_build ::
  "framework \<Rightarrow> batch_normalization_args \<Rightarrow> int \<Rightarrow> int list \<Rightarrow> dtype \<Rightarrow> bool \<Rightarrow> string
     \<Rightarrow> blob M" where
  "batch_normalization_build fw a axis params_shape params_dtype training name =
     bindM (if bn_center a then
         invoke fw (GetVariable
           \<lparr>v_name = name @ ''-beta'',
            v_shape = params_shape,
            v_dtype = params_dtype,
            v_initializer = or_default (bn_beta_initializer a) ZerosInitializer,
            v_regularizer = bn_beta_regularizer a,
            v_trainable = bn_trainable a,
            v_model_name = None,
            v_distribute = Some Broadcast\<rparr>)
       else invoke fw (Constant 0 params_dtype params_shape)) (\<lambda>beta.
     bindM (if bn_scale a then
         invoke fw (GetVariable
           \<lparr>v_name = name @ ''-gamma'',
            v_shape = params_shape,
            v_dtype = params_dtype,
            v_initializer = or_default (bn_gamma_initializer a) OnesInitializer,
            v_regularizer = bn_gamma_regularizer a,
            v_trainable = bn_trainable a,
            v_model_name = None,
            v_distribute = Some Broadcast\<rparr>)
       else invoke fw (Constant 1 params_dtype params_shape)) (\<lambda>gamma.
     bindM (invoke fw (GetVariable
       \<lparr>v_name = name @ ''-moving_mean'',
        v_shape = params_shape,
        v_dtype = params_dtype,
        v_initializer = or_default (bn_moving_mean_initializer a) ZerosInitializer,
        v_regularizer = None,
        v_trainable = False,
        v_model_name = None,
        v_distribute = Some Broadcast\<rparr>)) (\<lambda>moving_mean.
     bindM (invoke fw (GetVariable
       \<lparr>v_name = name @ ''-moving_variance'',
        v_shape = params_shape,
        v_dtype = params_dtype,
        v_initializer = or_default (bn_moving_variance_initializer a) OnesInitializer,
        v_regularizer = None,
        v_trainable = False,
        v_model_name = None,
        v_distribute = Some Broadcast\<rparr>)) (\<lambda>moving_variance.
     bindM (invoke_list fw (UserOp name ''normalization''
         [(''x'', [bn_inputs a]), (''moving_mean'', [moving_mean]),
          (''moving_variance'', [moving_variance]), (''gamma'', [gamma]),
          (''beta'', [beta])]
         ([''y''] @ (if bn_trainable a \<and> training then [''mean'', ''inv_variance''] else []))
         [(''axis'', AttrInt axis),
          (''epsilon'', AttrFloat (bn_epsilon a)),
          (''training'', AttrBool training),
          (''momentum'', AttrFloat (bn_momentum a))])) (\<lambda>blobs.
     index blobs 0)))))"

definition batch_normalization :: "framework \<Rightarrow> batch_normalization_args \<Rightarrow> blob M" where
  "batch_normalization fw a =
     bindM (batch_normalization_prepare fw a)
       (\<lambda>(axis, params_shape, params_dtype, training, name).
     batch_normalization_build fw a axis params_shape params_dtype training name)"

section \<open>upsample\<close>

record upsample_args =
  up_x :: blob
  up_size :: size_arg
  up_data_format :: string
  up_interpolation :: string
  up_name :: "string option"

text \<open>Lines 530 to 537: only the container of \<open>size\<close> is checked, not its elements.\<close>

fun upsample_scales :: "size_arg \<Rightarrow> (pyval \<times> pyval) M" where
  "upsample_scales (SizeInt n) = return (IntVal n, IntVal n)"
| "upsample_scales (SizeSeq xs) =
     bindM (py_assert (length xs = 2)) (\<lambda>_.
     bindM (index xs 0) (\<lambda>height_scale.
     bindM (index xs 1) (\<lambda>width_scale.
     return (height_scale, width_scale))))"
| "upsample_scales SizeOther = raise AssertionError"

text \<open>Lines 527 to 543: everything \<open>upsample\<close> does before its first framework call.\<close>

definition upsample_validate :: "framework \<Rightarrow> upsample_args \<Rightarrow> (string \<times> pyval \<times> pyval) M" where
  \<open>upsample_validate fw a =
     bindM (case up_name a of Some n \<Rightarrow> return n | None \<Rightarrow> UniqueStr fw ''Upsample2D_'')
       (\<lambda>name.
     bindM (upsample_scales (up_size a)) (\<lambda>(height_scale, width_scale).
     bindM (if up_interpolation a \<noteq> ''nearest'' \<and> up_interpolation a \<noteq> ''bilinear''
            then raise (ValueError ''interpolation must be "nearest" or "bilinear".'')
            else return ()) (\<lambda>_.
     bindM (if upper (up_data_format a) \<noteq> ''NCHW'' \<and> upper (up_data_format a) \<noteq> ''NHWC''
            then raise (ValueError ''data_format must be "NHWC" or "NCHW".'')
            else return ()) (\<lambda>_.
     return (name, height_scale, width_scale)))))\<close>

text \<open>
  Lines 545 to 568.  \<open>float(height_scale)\<close> and \<open>float(width_scale)\<close> of lines 557
  and 558 are evaluated after the transpose of line 550 and may raise.
\<close>

definition upsample_build ::
  "framework \<Rightarrow> upsample_args \<Rightarrow> string \<Rightarrow> pyval \<Rightarrow> pyval \<Rightarrow> blob M" where
  "upsample_build fw a name height_scale width_scale =
     (let need_transpose = (upper (up_data_format a) = ''NHWC'') in
      bindM (if need_transpose then invoke fw (Transpose (up_x a) [0, 3, 1, 2])
             else return (up_x a)) (\<lambda>x.
      bindM (lift (float height_scale)) (\<lambda>height.
      bindM (lift (float width_scale)) (\<lambda>width.
      bindM (invoke_list fw (UserOp name ''upsample''
          [(''x'', [x])]
          [''y'']
          [(''height_scale'', AttrFloat height),
           (''width_scale'', AttrFloat width),
           (''data_format'', AttrStr ''channels_first''),
           (''interpolation'', AttrStr (up_interpolation a))])) (\<lambda>blobs.
      bindM (index blobs 0) (\<lambda>y.
      bindM (if need_transpose then invoke fw (Transpose y [0, 2, 3, 1])
             else return y) (\<lambda>y.
      return y)))))))"

definition upsample :: "framework \<Rightarrow> upsample_args \<Rightarrow> blob M" where
  "upsample fw a =
     bindM (upsample_validate fw a) (\<lambda>(name, height_scale, width_scale).
     upsample_build fw a name height_scale width_scale)"

section \<open>The export table\<close>

text \<open>
  Each function of the file carries one \<open>@oneflow_export\<close> decorator, which makes it
  available under the name given: \<open>oneflow_export\<close> lists the decorators in the order
  of the file, each with the function below it, and \<open>def_name\<close> is the name in the
  \<open>def\<close>.
\<close>

datatype layer_fn =
    Dense
  | Conv2d
  | LayerNorm
  | LayerNormGrad
  | LayerNormParamGrad
  | BatchNormalization
  | Upsample

fun def_name :: "layer_fn \<Rightarrow> string" where
  "def_name Dense = ''dense''"
| "def_name Conv2d = ''conv2d''"
| "def_name LayerNorm = ''layer_norm''"
| "def_name LayerNormGrad = ''layer_norm_grad''"
| "def_name LayerNormParamGrad = ''layer_norm_param_grad''"
| "def_name BatchNormalization = ''batch_normalization''"
| "def_name Upsample = ''upsample''"

definition oneflow_export :: "(string \<times> layer_fn) list" where
  "oneflow_export =
     [(''layers.dense'', Dense),
      (''layers.conv2d'', Conv2d),
      (''layers.layer_norm'', LayerNorm),
      (''layers.layer_norm_grad'', LayerNormGrad),
      (''layers.layer_norm_param_grad'', LayerNormParamGrad),
      (''layers.batch_normalization'', BatchNormalization),
      (''layers.upsample_2d'', Upsample)]"

text \<open>
  A call of one of the seven functions, with that function's arguments; what it
  returns, as the list of handles (\<open>layer_norm_param_grad\<close> returns a tuple of three).
\<close>

datatype layer_args =
    DenseArgs dense_args
  | Conv2dArgs conv2d_args
  | LayerNormArgs layer_norm_args
  | LayerNormGradArgs layer_norm_grad_args
  | LayerNormParamGradArgs layer_norm_param_grad_args
  | BatchNormalizationArgs batch_normalization_args
  | UpsampleArgs upsample_args

fun layer_of :: "layer_args \<Rightarrow> layer_fn" where
  "layer_of (DenseArgs _) = Dense"
| "layer_of (Conv2dArgs _) = Conv2d"
| "layer_of (LayerNormArgs _) = LayerNorm"
| "layer_of (LayerNormGradArgs _) = LayerNormGrad"
| "layer_of (LayerNormParamGradArgs _) = LayerNormParamGrad"
| "layer_of (BatchNormalizationArgs _) = BatchNormalization"
| "layer_of (UpsampleArgs _) = Upsample"

fun call_layer :: "framework \<Rightarrow> layer_args \<Rightarrow> blob list M" where
  "call_layer fw (DenseArgs a) = bindM (dense fw a) (\<lambda>y. return [y])"
| "call_layer fw (Conv2dArgs a) = bindM (conv2d fw a) (\<lambda>y. return [y])"
| "call_layer fw (LayerNormArgs a) = bindM (layer_norm fw a) (\<lambda>y. return [y])"
| "call_layer fw (LayerNormGradArgs a) = bindM (layer_norm_grad fw a) (\<lambda>y. return [y])"
| "call_layer fw (LayerNormParamGradArgs a) =
     bindM (layer_norm_param_grad fw a) (\<lambda>(x, y, z). return [x, y, z])"
| "call_layer fw (BatchNormalizationArgs a) =
     bindM (batch_normalization fw a) (\<lambda>y. return [y])"
| "call_layer fw (UpsampleArgs a) = bindM (upsample fw a) (\<lambda>y. return [y])"

text \<open>
  The tensor handles among the arguments of such a call; every other argument is a
  shape, a hyperparameter, an initializer, a flag or a name.
\<close>

fun tensor_args :: "layer_args \<Rightarrow> blob list" where
  "tensor_args (DenseArgs a) = [dn_inputs a]"
| "tensor_args (Conv2dArgs a) = [cv_inputs a]"
| "tensor_args (LayerNormArgs a) = [ln_inputs a]"
| "tensor_args (LayerNormGradArgs a) = [lg_dy a, lg_x a, lg_mean a, lg_inv_variance a]"
| "tensor_args (LayerNormParamGradArgs a) = [lp_dy a, lp_norm a, lp_gamma a]"
| "tensor_args (BatchNormalizationArgs a) = [bn_inputs a]"
| "tensor_args (UpsampleArgs a) = [up_x a]"

section \<open>Observing a call\<close>

text \<open>The tensor handles a call into the framework is given.\<close>

fun call_inputs :: "call \<Rightarrow> blob list" where
  "call_inputs (GetVariable _) = []"
| "call_inputs (Reshape x _) = [x]"
| "call_inputs (MatMul a b _ _) = [a, b]"
| "call_inputs (BiasAdd a b _ _) = [a, b]"
| "call_inputs (Conv2D x w _ _ _ _ _ _) = [x, w]"
| "call_inputs (Constant _ _ _) = []"
| "call_inputs (Transpose x _) = [x]"
| "call_inputs (UserOp _ _ ins _ _) = concat (map snd ins)"
| "call_inputs (Callback _ x _) = [x]"

text \<open>The framework calls a run has added to the trace, oldest first.\<close>

definition added :: "graph \<Rightarrow> (error + 'a) \<times> graph \<Rightarrow> call list" where
  "added g r = drop (length (trace g)) (trace (snd r))"

text \<open>An error the file raises itself, as opposed to one raised inside the framework.\<close>

definition own_error :: "(error + 'a) \<times> graph \<Rightarrow> bool" where
  "own_error r = (case fst r of Inl e \<Rightarrow> e \<noteq> FrameworkError | Inr _ \<Rightarrow> False)"

definition returns :: "(error + 'a) \<times> graph \<Rightarrow> bool" where
  "returns r = (case fst r of Inl _ \<Rightarrow> False | Inr _ \<Rightarrow> True)"

text \<open>The shape a call gives to a parameter: a variable's, or a constant's.\<close>

fun param_shape :: "call \<Rightarrow> int list option" where
  "param_shape (GetVariable v) = Some (v_shape v)"
| "param_shape (Constant _ _ s) = Some s"
| "param_shape _ = None"

text \<open>Which operator a call builds.\<close>

fun is_matmul :: "call \<Rightarrow> bool" where
  "is_matmul (MatMul _ _ _ _) = True"
| "is_matmul _ = False"

fun is_bias_add :: "call \<Rightarrow> bool" where
  "is_bias_add (BiasAdd _ _ _ _) = True"
| "is_bias_add _ = False"

fun is_conv2d :: "call \<Rightarrow> bool" where
  "is_conv2d (Conv2D _ _ _ _ _ _ _ _) = True"
| "is_conv2d _ = False"

text \<open>
  What the activation step of \<open>dense\<close> (lines 119 to 123) and \<open>conv2d\<close> (lines 252 and
  253) yields from the handle \<open>core\<close>, and the callback applications it makes.
\<close>

definition activated :: "framework \<Rightarrow> string option \<Rightarrow> blob \<Rightarrow> string \<Rightarrow> blob" where
  "activated fw act core nm =
     (case act of None \<Rightarrow> core | Some f \<Rightarrow> out_blob fw (Callback f core nm) 0)"

definition callbacks :: "string option \<Rightarrow> blob \<Rightarrow> string \<Rightarrow> call list" where
  "callbacks act core nm = (case act of None \<Rightarrow> [] | Some f \<Rightarrow> [Callback f core nm])"

section \<open>Two frameworks and a graph to run the constructors on\<close>

text \<open>
  \<open>permissive\<close> accepts every call; \<open>padding_checking\<close> raises in \<open>flow.nn.conv2d\<close> when
  the padding is neither \<open>VALID\<close> nor \<open>SAME\<close>.  Both give a variable the shape and type it
  was asked with and a reshape the shape it was asked for.
\<close>

fun example_infer :: "call \<Rightarrow> nat \<Rightarrow> int list \<times> dtype" where
  "example_infer (GetVariable v) i = (v_shape v, v_dtype v)"
| "example_infer (Reshape b s) i = (s, dtype b)"
| "example_infer _ i = ([], Float32)"

definition permissive :: framework where
  "permissive =
     \<lparr>accepts = (\<lambda>g c. True),
      infer = example_infer,
      unique_str = (\<lambda>n prefix. prefix @ replicate (Suc n) (CHR ''0'')),
      is_trainable = True\<rparr>"

fun padding_ok :: "call \<Rightarrow> bool" where
  "padding_ok (Conv2D _ _ _ p _ _ _ _) = (p = ''VALID'' \<or> p = ''SAME'')"
| "padding_ok _ = True"

definition padding_checking :: framework where
  "padding_checking = permissive\<lparr>accepts := (\<lambda>g c. padding_ok c)\<rparr>"

definition empty_graph :: graph where
  "empty_graph = \<lparr>trace = [], id_count = 0\<rparr>"

definition nchw_input :: blob where
  "nchw_input = Blob [8, 4, 32, 32] Float32 (Placeholder ''image'')"

definition seq_input :: blob where
  "seq_input = Blob [2, 3, 5] Float32 (Placeholder ''tokens'')"

definition conv2d_defaults :: conv2d_args where
  "conv2d_defaults =
     \<lparr>cv_inputs = nchw_input, cv_filters = 6, cv_kernel_size = IntArg 1, cv_strides = IntArg 1,
      cv_padding = ''VALID'', cv_data_format = ''NCHW'', cv_dilation_rate = IntArg 1,
      cv_groups = IntArg 1, cv_activation = None, cv_use_bias = True,
      cv_kernel_initializer = None, cv_bias_initializer = None,
      cv_kernel_regularizer = None, cv_bias_regularizer = None, cv_trainable = True,
      cv_name = None, cv_weight_name = None, cv_bias_name = None\<rparr>"

definition dense_defaults :: dense_args where
  "dense_defaults =
     \<lparr>dn_inputs = seq_input, dn_units = 7, dn_activation = None, dn_use_bias = True,
      dn_kernel_initializer = None, dn_bias_initializer = None,
      dn_kernel_regularizer = None, dn_bias_regularizer = None, dn_trainable = True,
      dn_name = None, dn_model_distribute = Broadcast\<rparr>"

definition layer_norm_defaults :: layer_norm_args where
  "layer_norm_defaults =
     \<lparr>ln_inputs = seq_input, ln_center = True, ln_scale = True, ln_trainable = True,
      ln_begin_norm_axis = 1, ln_begin_params_axis = - 1, ln_epsilon = FloatLit ''1e-5'',
      ln_name = None\<rparr>"

definition layer_norm_grad_defaults :: layer_norm_grad_args where
  "layer_norm_grad_defaults =
     \<lparr>lg_dy = seq_input, lg_x = seq_input, lg_mean = seq_input, lg_inv_variance = seq_input,
      lg_begin_norm_axis = 1, lg_name = None\<rparr>"

definition layer_norm_param_grad_defaults :: layer_norm_param_grad_args where
  "layer_norm_param_grad_defaults =
     \<lparr>lp_dy = seq_input, lp_norm = seq_input, lp_gamma = seq_input, lp_begin_params_axis = - 1,
      lp_name = None\<rparr>"

definition batch_normalization_defaults :: batch_normalization_args where
  "batch_normalization_defaults =
     \<lparr>bn_inputs = nchw_input, bn_axis = - 1, bn_momentum = FloatLit ''0.99'',
      bn_epsilon = FloatLit ''0.001'', bn_center = True, bn_scale = True,
      bn_beta_initializer = None, bn_gamma_initializer = None,
      bn_beta_regularizer = None, bn_gamma_regularizer = None,
      bn_moving_mean_initializer = None, bn_moving_variance_initializer = None,
      bn_trainable = True, bn_training = True, bn_name = None\<rparr>"

definition upsample_defaults :: upsample_args where
  "upsample_defaults =
     \<lparr>up_x = nchw_input, up_size = SizeSeq [IntVal 2, IntVal 2], up_data_format = ''NCHW'',
      up_interpolation = ''nearest'', up_name = None\<rparr>"

section \<open>Unfolding the model\<close>

lemmas monad_defs = bindM_def return_def raise_def lift_def py_assert_def index_def

lemmas call_defs = UniqueStr_def invoke_def invoke_list_def out_blob_def or_default_def
  if_truthy_def upper_def upper_char_def Let_def added_def with_distribute_def

lemmas example_defs = permissive_def padding_checking_def empty_graph_def nchw_input_def
  seq_input_def conv2d_defaults_def dense_defaults_def layer_norm_defaults_def
  layer_norm_grad_defaults_def layer_norm_param_grad_defaults_def
  batch_normalization_defaults_def upsample_defaults_def

lemmas conv2d_defs = conv2d_def conv2d_validate_def conv2d_weight_shape_def conv2d_build_def

section \<open>Runs as relations\<close>

lemmas batch_normalization_defs = batch_normalization_def batch_normalization_prepare_def
  batch_normalization_build_def

lemma invoke_list_first:
  "0 < n_outputs c \<Longrightarrow> bindM (invoke_list fw c) (\<lambda>bs. index bs 0) = invoke fw c"
  by (rule ext) (simp add: monad_defs invoke_list_def invoke_def)

lemma bind_returns:
  "(bindM m f g = (Inr y, g'')) = (\<exists>x g'. m g = (Inr x, g') \<and> f x g' = (Inr y, g''))"
  by (auto simp: bindM_def split: prod.splits sum.splits)

lemma bind_runs:
  "(bindM m f g = (r, g'')) =
     ((\<exists>e. m g = (Inl e, g'') \<and> r = Inl e) \<or> (\<exists>x g'. m g = (Inr x, g') \<and> f x g' = (r, g'')))"
  by (auto simp: bindM_def split: prod.splits sum.splits)

lemma invoke_runs:
  "(invoke fw c g = (r, g')) =
     (accepts fw g c \<and> r = Inr (out_blob fw c 0) \<and> g' = g\<lparr>trace := trace g @ [c]\<rparr>
      \<or> \<not> accepts fw g c \<and> r = Inl FrameworkError \<and> g' = g)"
  by (auto simp: invoke_def)

lemma if_runs:
  "((if c then m else m') g = (r, g')) =
     ((c \<longrightarrow> m g = (r, g')) \<and> (\<not> c \<longrightarrow> m' g = (r, g')))"
  by simp

lemma return_runs: "(return x g = (r, g')) = (r = Inr x \<and> g' = g)"
  by (auto simp: return_def)

lemma raise_runs: "(raise e g = (r, g')) = (r = Inl e \<and> g' = g)"
  by (auto simp: raise_def)

lemma lift_runs: "(lift x g = (r, g')) = (x = r \<and> g' = g)"
  by (auto simp: lift_def)

lemma assert_runs:
  "(py_assert b g = (r, g')) = (g' = g \<and> (b \<and> r = Inr () \<or> \<not> b \<and> r = Inl AssertionError))"
  by (auto simp: py_assert_def return_def raise_def)

lemma index_runs:
  "(index xs i g = (r, g')) =
     (g' = g \<and>
      ((0 \<le> (if i < 0 then int (length xs) + i else i)
          \<and> (if i < 0 then int (length xs) + i else i) < int (length xs)
          \<and> r = Inr (xs ! nat (if i < 0 then int (length xs) + i else i)))
       \<or> (\<not> (0 \<le> (if i < 0 then int (length xs) + i else i)
              \<and> (if i < 0 then int (length xs) + i else i) < int (length xs))
          \<and> r = Inl IndexError)))"
  by (auto simp: index_def Let_def return_def raise_def)

lemma name_runs:
  "((case n of Some x \<Rightarrow> return x | None \<Rightarrow> UniqueStr fw p) g = (r, g')) =
     (r = Inr (case n of Some x \<Rightarrow> x | None \<Rightarrow> unique_str fw (id_count g) p)
      \<and> trace g' = trace g
      \<and> g' = (case n of Some x \<Rightarrow> g | None \<Rightarrow> g\<lparr>id_count := Suc (id_count g)\<rparr>))"
  by (cases n) (auto simp: UniqueStr_def return_def)

lemma activation_runs:
  "((case act of Some f \<Rightarrow> invoke fw (Callback f x nm) | None \<Rightarrow> return x) g = (r, g')) =
     ((act = None \<and> r = Inr x \<and> g' = g)
      \<or> (\<exists>f. act = Some f \<and> accepts fw g (Callback f x nm)
            \<and> r = Inr (out_blob fw (Callback f x nm) 0)
            \<and> g' = g\<lparr>trace := trace g @ [Callback f x nm]\<rparr>)
      \<or> (\<exists>f. act = Some f \<and> \<not> accepts fw g (Callback f x nm)
            \<and> r = Inl FrameworkError \<and> g' = g))"
  by (cases act) (auto simp: invoke_def return_def)

lemmas runs = bind_runs invoke_runs if_runs return_runs raise_runs lift_runs assert_runs
  index_runs
  name_runs activation_runs

lemma bind_fails:
  "(bindM m f g = (Inl e, g'')) =
     (m g = (Inl e, g'') \<or> (\<exists>x g'. m g = (Inr x, g') \<and> f x g' = (Inl e, g'')))"
  by (auto simp: bindM_def split: prod.splits sum.splits)

lemmas prune = sum.inject sum.distinct simp_thms ex_simps prod.inject

lemmas returning = bind_returns runs prune

lemmas failing = bind_fails bind_returns runs prune

lemma invoke_list_runs:
  "(invoke_list fw c g = (r, g')) =
     (accepts fw g c \<and> r = Inr (map (out_blob fw c) [0..<n_outputs c])
        \<and> g' = g\<lparr>trace := trace g @ [c]\<rparr>
      \<or> \<not> accepts fw g c \<and> r = Inl FrameworkError \<and> g' = g)"
  by (auto simp: invoke_list_def)

lemma own_errorE:
  assumes "own_error r"
  obtains e g' where "r = (Inl e, g')" "e \<noteq> FrameworkError"
  using assms by (cases r; cases "fst r") (auto simp: own_error_def)

lemma returnsE:
  assumes "returns r"
  obtains b g' where "r = (Inr b, g')"
  using assms by (cases r; cases "fst r") (auto simp: returns_def)

section \<open>conv2d: validation comes first, and only validation raises\<close>

lemma conv2d_validate_trace: "trace (snd (conv2d_validate fw a g)) = trace g"
  unfolding conv2d_validate_def conv2d_weight_shape_def
  by (cases "cv_kernel_size a"; cases "cv_groups a"; cases "cv_name a")
     (simp_all add: monad_defs UniqueStr_def Let_def)

lemma conv2d_build_error:
  "fst (conv2d_build fw a p gr ws g) = Inl e \<Longrightarrow> e = FrameworkError"
  unfolding conv2d_build_def
  by (auto simp: monad_defs invoke_def split: if_splits option.splits prod.splits sum.splits)

lemma conv2d_cases:
  "conv2d fw a g =
     (case conv2d_validate fw a g of
        (Inl e, g') \<Rightarrow> (Inl e, g')
      | (Inr (p, gr, ws), g') \<Rightarrow> conv2d_build fw a p gr ws g')"
  by (simp add: conv2d_def bindM_def split: prod.splits sum.splits)

lemma conv2d_validate_fails:
  "fst (conv2d_validate fw a g) = Inl e \<Longrightarrow>
     fst (conv2d fw a g) = Inl e \<and> snd (conv2d fw a g) = snd (conv2d_validate fw a g)"
  by (auto simp: conv2d_cases split: prod.splits sum.splits)

lemma conv2d_own_error:
  assumes "own_error (conv2d fw a g)"
  shows "\<exists>e. fst (conv2d_validate fw a g) = Inl e \<and> fst (conv2d fw a g) = Inl e
         \<and> snd (conv2d fw a g) = snd (conv2d_validate fw a g)"
  using assms conv2d_build_error[of fw a _ _ _ "snd (conv2d_validate fw a g)"]
  by (auto simp: conv2d_cases own_error_def split: prod.splits sum.splits)

lemma conv2d_validate_padding:
  "conv2d_validate fw (a\<lparr>cv_padding := p\<rparr>) = conv2d_validate fw a"
  by (simp add: conv2d_validate_def conv2d_weight_shape_def cong: if_cong option.case_cong)

section \<open>What conv2d checks\<close>

text \<open>
  C5, where the code departs from it: with \<open>data_format = "NCDHW"\<close>, whose upper case
  is neither \<open>NCHW\<close> nor \<open>NHWC\<close>, and \<open>groups = 0\<close>, \<open>conv2d\<close> raises the
  \<open>AssertionError\<close> of line 195 and never reaches the \<open>ValueError\<close> of line 213.  The
  docstring of \<open>conv2d\<close> lists \<open>ValueError\<close> for a non-positive \<open>groups\<close> as well.
\<close>

theorem conv2d_data_format_zero_groups:
  "upper (cv_data_format (conv2d_defaults\<lparr>cv_data_format := ''NCDHW'', cv_groups := IntArg 0\<rparr>))
     \<noteq> ''NCHW''
   \<and> upper (cv_data_format (conv2d_defaults\<lparr>cv_data_format := ''NCDHW'', cv_groups := IntArg 0\<rparr>))
     \<noteq> ''NHWC''
   \<and> fst (conv2d permissive
        (conv2d_defaults\<lparr>cv_data_format := ''NCDHW'', cv_groups := IntArg 0\<rparr>) empty_graph)
     = Inl AssertionError"
  by (simp add: conv2d_defs call_defs monad_defs example_defs)

text \<open>
  C6: \<open>conv2d\<close> fails at once, before any variable or operator node is created, unless
  \<open>groups\<close> is an int with \<open>0 < groups \<le> filters\<close> and \<open>filters % groups = 0\<close>, and for
  \<open>NCHW\<close> \<open>groups \<le> inputs.shape[1]\<close> with \<open>inputs.shape[1] % groups = 0\<close>, and for
  \<open>NHWC\<close> \<open>groups = 1\<close>.  The error is an \<open>AssertionError\<close>, or the \<open>IndexError\<close> of
  \<open>inputs.shape[1]\<close> on an input with fewer than two axes.
\<close>

theorem conv2d_group_constraints:
  assumes "\<not> (\<exists>n. cv_groups a = IntArg n \<and> 0 < n \<and> n \<le> cv_filters a \<and> cv_filters a mod n = 0
      \<and> (upper (cv_data_format a) = ''NCHW'' \<longrightarrow>
           1 < length (shape (cv_inputs a)) \<and> n \<le> shape (cv_inputs a) ! 1
           \<and> shape (cv_inputs a) ! 1 mod n = 0)
      \<and> (upper (cv_data_format a) = ''NHWC'' \<longrightarrow> n = 1))"
  shows "fst (conv2d fw a g) \<in> {Inl AssertionError, Inl IndexError}
         \<and> trace (snd (conv2d fw a g)) = trace g"
proof -
  have v: "fst (conv2d_validate fw a g) \<in> {Inl AssertionError, Inl IndexError}"
    using assms unfolding conv2d_validate_def conv2d_weight_shape_def
    by (cases "cv_kernel_size a"; cases "cv_groups a"; cases "cv_name a")
       (auto simp: monad_defs UniqueStr_def Let_def)
  then obtain e where e: "fst (conv2d_validate fw a g) = Inl e" by auto
  from conv2d_validate_fails[OF e] v e conv2d_validate_trace[of fw a g] show ?thesis by simp
qed

theorem conv2d_group_constraints_witness:
  "fst (conv2d permissive (conv2d_defaults\<lparr>cv_groups := IntArg 4\<rparr>) empty_graph)
     \<in> {Inl AssertionError, Inl IndexError}
   \<and> trace (snd (conv2d permissive (conv2d_defaults\<lparr>cv_groups := IntArg 4\<rparr>) empty_graph))
     = trace empty_graph"
  using conv2d_group_constraints
      [of "conv2d_defaults\<lparr>cv_groups := IntArg 4\<rparr>" permissive empty_graph]
  by (simp add: conv2d_defaults_def)

lemma conv2d_build_added:
  "added g (conv2d_build fw a p gr ws g) \<noteq> [] \<Longrightarrow>
     is_variable (hd (added g (conv2d_build fw a p gr ws g)))"
  unfolding conv2d_build_def added_def
  by (auto simp: monad_defs invoke_def split: if_splits option.splits prod.splits sum.splits)

lemma conv2d_build_padding:
  "Conv2D x w s q df d n nm \<in> set (added g (conv2d_build fw a p gr ws g)) \<Longrightarrow>
     q = cv_padding a"
  unfolding conv2d_build_def added_def
  by (auto simp: monad_defs invoke_def split: if_splits option.splits prod.splits sum.splits)

lemma conv2d_added:
  "added g (conv2d fw a g) =
     (case conv2d_validate fw a g of
        (Inl e, g') \<Rightarrow> []
      | (Inr (p, gr, ws), g') \<Rightarrow> added g' (conv2d_build fw a p gr ws g'))"
  using conv2d_validate_trace[of fw a g]
  by (auto simp: conv2d_cases added_def split: prod.splits sum.splits)

text \<open>
  C1, as the code has it: \<open>conv2d\<close> never inspects \<open>padding\<close>.  An error raised by
  the file itself comes before any variable or operator node and is the same whatever
  the padding; a call that gets past the file's checks first asks for the weight
  variable, and hands \<open>padding\<close> unchanged to \<open>flow.nn.conv2d\<close> only after that.
\<close>

theorem conv2d_padding_forwarded:
  "(own_error (conv2d fw a g) \<longrightarrow>
      added g (conv2d fw a g) = []
      \<and> conv2d fw (a\<lparr>cv_padding := p\<rparr>) g = conv2d fw a g)
   \<and> (added g (conv2d fw a g) \<noteq> [] \<longrightarrow> is_variable (hd (added g (conv2d fw a g))))
   \<and> (\<forall>x w s q df d n nm. Conv2D x w s q df d n nm \<in> set (added g (conv2d fw a g)) \<longrightarrow>
         q = cv_padding a)"
proof (intro conjI impI allI)
  assume o: "own_error (conv2d fw a g)"
  from conv2d_own_error[OF o] obtain e where
    e: "fst (conv2d_validate fw a g) = Inl e" "fst (conv2d fw a g) = Inl e"
       "snd (conv2d fw a g) = snd (conv2d_validate fw a g)" by blast
  from e show "added g (conv2d fw a g) = []"
    using conv2d_validate_trace[of fw a g] by (simp add: added_def)
  from e(1) have "fst (conv2d_validate fw (a\<lparr>cv_padding := p\<rparr>) g) = Inl e"
    by (simp add: conv2d_validate_padding)
  from conv2d_validate_fails[OF this] e show "conv2d fw (a\<lparr>cv_padding := p\<rparr>) g = conv2d fw a g"
    by (simp add: conv2d_validate_padding prod_eq_iff)
next
  assume "added g (conv2d fw a g) \<noteq> []"
  then show "is_variable (hd (added g (conv2d fw a g)))"
    using conv2d_build_added
    by (auto simp: conv2d_added split: prod.splits sum.splits)
next
  fix x w s q df d n nm
  assume "Conv2D x w s q df d n nm \<in> set (added g (conv2d fw a g))"
  then show "q = cv_padding a"
    using conv2d_build_padding
    by (auto simp: conv2d_added split: prod.splits sum.splits)
qed

theorem conv2d_padding_forwarded_witness:
  "added empty_graph (conv2d permissive (conv2d_defaults\<lparr>cv_groups := IntArg 0\<rparr>) empty_graph) = []
   \<and> conv2d permissive (conv2d_defaults\<lparr>cv_groups := IntArg 0, cv_padding := ''FULL''\<rparr>) empty_graph
       = conv2d permissive (conv2d_defaults\<lparr>cv_groups := IntArg 0\<rparr>) empty_graph
   \<and> is_variable (hd (added empty_graph
        (conv2d padding_checking (conv2d_defaults\<lparr>cv_padding := ''FULL''\<rparr>) empty_graph)))
   \<and> (case added empty_graph
          (conv2d permissive (conv2d_defaults\<lparr>cv_padding := ''FULL''\<rparr>) empty_graph) ! 1 of
        Conv2D x w s q df d n nm \<Rightarrow> q = ''FULL''
      | _ \<Rightarrow> False)"
proof -
  have o: "own_error (conv2d permissive (conv2d_defaults\<lparr>cv_groups := IntArg 0\<rparr>) empty_graph)"
    by (simp add: own_error_def conv2d_defs call_defs monad_defs example_defs)
  have n: "added empty_graph
      (conv2d padding_checking (conv2d_defaults\<lparr>cv_padding := ''FULL''\<rparr>) empty_graph) \<noteq> []"
    by (simp add: conv2d_defs call_defs monad_defs example_defs)
  have c: "is_conv2d (added empty_graph
      (conv2d permissive (conv2d_defaults\<lparr>cv_padding := ''FULL''\<rparr>) empty_graph) ! 1)
    \<and> added empty_graph
      (conv2d permissive (conv2d_defaults\<lparr>cv_padding := ''FULL''\<rparr>) empty_graph) ! 1
      \<in> set (added empty_graph
      (conv2d permissive (conv2d_defaults\<lparr>cv_padding := ''FULL''\<rparr>) empty_graph))"
    by (simp add: conv2d_defs call_defs monad_defs example_defs)
  note t = conv2d_padding_forwarded
      [of permissive "conv2d_defaults\<lparr>cv_padding := ''FULL''\<rparr>" empty_graph "''FULL''",
        THEN conjunct2, THEN conjunct2]
  have pad: "cv_padding (conv2d_defaults\<lparr>cv_padding := ''FULL''\<rparr>) = ''FULL''"
    by simp
  have q: "case added empty_graph
          (conv2d permissive (conv2d_defaults\<lparr>cv_padding := ''FULL''\<rparr>) empty_graph) ! 1 of
        Conv2D x w s q df d n nm \<Rightarrow> q = ''FULL''
      | _ \<Rightarrow> False"
  proof (cases "added empty_graph
          (conv2d permissive (conv2d_defaults\<lparr>cv_padding := ''FULL''\<rparr>) empty_graph) ! 1")
    case (Conv2D x w s q df d n nm)
    with c have "Conv2D x w s q df d n nm \<in> set (added empty_graph
          (conv2d permissive (conv2d_defaults\<lparr>cv_padding := ''FULL''\<rparr>) empty_graph))"
      by simp
    with t have "q = cv_padding (conv2d_defaults\<lparr>cv_padding := ''FULL''\<rparr>)" by blast
    with Conv2D pad show ?thesis by simp
  qed (use c in simp_all)
  from o n q
    conv2d_padding_forwarded
      [of permissive "conv2d_defaults\<lparr>cv_groups := IntArg 0\<rparr>" empty_graph "''FULL''"]
    conv2d_padding_forwarded
      [of padding_checking "conv2d_defaults\<lparr>cv_padding := ''FULL''\<rparr>" empty_graph "''FULL''"]
  show ?thesis by simp
qed

text \<open>
  C1 as stated fails: with \<open>padding = "FULL"\<close> the file raises nothing.  On a framework
  whose \<open>flow.nn.conv2d\<close> rejects that padding the error comes from the framework, after
  the weight variable has been created; on one that accepts it the call returns.
\<close>

theorem conv2d_padding_counterexample:
  "cv_padding (conv2d_defaults\<lparr>cv_padding := ''FULL''\<rparr>) \<noteq> ''VALID''
   \<and> cv_padding (conv2d_defaults\<lparr>cv_padding := ''FULL''\<rparr>) \<noteq> ''SAME''
   \<and> fst (conv2d padding_checking (conv2d_defaults\<lparr>cv_padding := ''FULL''\<rparr>) empty_graph)
       = Inl FrameworkError
   \<and> map is_variable (trace (snd
       (conv2d padding_checking (conv2d_defaults\<lparr>cv_padding := ''FULL''\<rparr>) empty_graph)))
       = [True]
   \<and> returns (conv2d permissive (conv2d_defaults\<lparr>cv_padding := ''FULL''\<rparr>) empty_graph)"
  by (simp add: returns_def conv2d_defs call_defs monad_defs example_defs)

section \<open>What batch_normalization creates\<close>

lemma suffix_beta:
  "nm @ ''-beta'' \<noteq> n @ ''-moving_mean''" "nm @ ''-beta'' \<noteq> n @ ''-moving_variance''"
  "nm @ ''-gamma'' \<noteq> n @ ''-moving_mean''" "nm @ ''-gamma'' \<noteq> n @ ''-moving_variance''"
  by (auto dest: arg_cong[where f = last])

lemma batch_normalization_build_run:
  assumes "batch_normalization_build fw a ax ps pd tr nm g = (r, g')"
  shows "trace g' = trace g @ drop (length (trace g)) (trace g')
      \<and> (\<forall>c\<in>set (drop (length (trace g)) (trace g')).
           param_shape c \<in> {None, Some ps}
           \<and> (\<forall>v n. c = GetVariable v
                 \<and> (v_name v = n @ ''-moving_mean'' \<or> v_name v = n @ ''-moving_variance'')
                 \<longrightarrow> \<not> v_trainable v)
           \<and> (\<forall>n t ins outs attrs. c = UserOp n t ins outs attrs \<longrightarrow>
                 map_of attrs ''axis'' = Some (AttrInt ax))
           \<and> (\<forall>n t ins outs attrs. c = UserOp n t ins outs attrs \<longrightarrow>
                 map_of attrs ''training'' = Some (AttrBool tr)
                 \<and> outs = ''y'' # (if bn_trainable a \<and> tr then [''mean'', ''inv_variance'']
                                   else [])))
      \<and> (\<forall>b. r = Inr b \<longrightarrow>
           map param_shape (drop (length (trace g)) (trace g')) = replicate 4 (Some ps) @ [None]
           \<and> (\<exists>mm mv nm. drop (length (trace g)) (trace g') ! 2 = GetVariable mm
                \<and> v_name mm = nm @ ''-moving_mean''
                \<and> drop (length (trace g)) (trace g') ! 3 = GetVariable mv
                \<and> v_name mv = nm @ ''-moving_variance''))"
  using assms unfolding batch_normalization_build_def
  apply (simp add: invoke_list_first)
  apply (simp only: bind_runs invoke_runs if_runs)
  apply (cases "bn_center a"; cases "bn_scale a")
  apply (elim exE conjE disjE; simp add: suffix_beta numeral_eq_Suc)+
  done

lemma batch_normalization_cases:
  "batch_normalization fw a g =
     (if \<not> (- int (length (shape (bn_inputs a))) \<le> bn_axis a
            \<and> bn_axis a < int (length (shape (bn_inputs a))))
      then (Inl AssertionError, g)
      else batch_normalization_build fw a
        (if bn_axis a < 0 then bn_axis a + int (length (shape (bn_inputs a))) else bn_axis a)
        [shape (bn_inputs a) !
           nat (if bn_axis a < 0 then bn_axis a + int (length (shape (bn_inputs a)))
                else bn_axis a)]
        (if dtype (bn_inputs a) = Float16 then Float32 else dtype (bn_inputs a))
        (if \<not> is_trainable fw \<or> \<not> bn_trainable a then False else bn_training a)
        (case bn_name a of Some n \<Rightarrow> n | None \<Rightarrow> unique_str fw (id_count g) ''BatchNorm_'')
        (case bn_name a of Some n \<Rightarrow> g | None \<Rightarrow> g\<lparr>id_count := Suc (id_count g)\<rparr>))"
  unfolding batch_normalization_def batch_normalization_prepare_def
  by (cases "bn_name a") (auto simp: monad_defs UniqueStr_def Let_def)

lemma trace_named:
  "trace (case n of Some x \<Rightarrow> g | None \<Rightarrow> g\<lparr>id_count := k\<rparr>) = trace g"
  by (cases n) simp_all

lemma batch_normalization_run:
  assumes r: "- int (length (shape (bn_inputs a))) \<le> bn_axis a
        \<and> bn_axis a < int (length (shape (bn_inputs a)))"
  shows "\<exists>res g'. batch_normalization fw a g = (res, g') \<and>
      batch_normalization_build fw a
        (if bn_axis a < 0 then bn_axis a + int (length (shape (bn_inputs a))) else bn_axis a)
        [shape (bn_inputs a) !
           nat (if bn_axis a < 0 then bn_axis a + int (length (shape (bn_inputs a)))
                else bn_axis a)]
        (if dtype (bn_inputs a) = Float16 then Float32 else dtype (bn_inputs a))
        (if \<not> is_trainable fw \<or> \<not> bn_trainable a then False else bn_training a)
        (case bn_name a of Some n \<Rightarrow> n | None \<Rightarrow> unique_str fw (id_count g) ''BatchNorm_'')
        (case bn_name a of Some n \<Rightarrow> g | None \<Rightarrow> g\<lparr>id_count := Suc (id_count g)\<rparr>)
       = (res, g')"
  using r by (simp add: batch_normalization_cases)

text \<open>
  C8: \<open>batch_normalization\<close> fails with \<open>AssertionError\<close>, before any framework call,
  unless \<open>-len(inputs.shape) \<le> axis < len(inputs.shape)\<close>.  Otherwise a negative axis
  has \<open>len(inputs.shape)\<close> added to it, the op's \<open>axis\<close> attribute is that normalized
  axis, and every variable or constant the call creates has the shape
  \<open>[inputs.shape[axis]]\<close> for it; a call that returns has created exactly four of
  them (beta, gamma, moving_mean, moving_variance) and then the op.
\<close>

theorem batch_normalization_axis:
  "(\<not> (- int (length (shape (bn_inputs a))) \<le> bn_axis a
        \<and> bn_axis a < int (length (shape (bn_inputs a)))) \<longrightarrow>
      fst (batch_normalization fw a g) = Inl AssertionError
      \<and> added g (batch_normalization fw a g) = [])
   \<and> (- int (length (shape (bn_inputs a))) \<le> bn_axis a
        \<and> bn_axis a < int (length (shape (bn_inputs a))) \<longrightarrow>
      (\<forall>c\<in>set (added g (batch_normalization fw a g)).
          param_shape c \<in> {None, Some [shape (bn_inputs a) !
             nat (if bn_axis a < 0 then bn_axis a + int (length (shape (bn_inputs a)))
                  else bn_axis a)]}
          \<and> (\<forall>n t ins outs attrs. c = UserOp n t ins outs attrs \<longrightarrow>
                map_of attrs ''axis'' = Some (AttrInt
                  (if bn_axis a < 0 then bn_axis a + int (length (shape (bn_inputs a)))
                   else bn_axis a))))
      \<and> (returns (batch_normalization fw a g) \<longrightarrow>
           map param_shape (added g (batch_normalization fw a g)) =
             replicate 4 (Some [shape (bn_inputs a) !
               nat (if bn_axis a < 0 then bn_axis a + int (length (shape (bn_inputs a)))
                    else bn_axis a)]) @ [None]))"
proof (intro conjI impI ballI)
  assume "\<not> (- int (length (shape (bn_inputs a))) \<le> bn_axis a
        \<and> bn_axis a < int (length (shape (bn_inputs a))))"
  then have "batch_normalization fw a g = (Inl AssertionError, g)"
    by (simp add: batch_normalization_cases)
  then show "fst (batch_normalization fw a g) = Inl AssertionError"
    and "added g (batch_normalization fw a g) = []"
    by (simp_all add: added_def)
next
  fix c
  assume r: "- int (length (shape (bn_inputs a))) \<le> bn_axis a
        \<and> bn_axis a < int (length (shape (bn_inputs a)))"
    and c: "c \<in> set (added g (batch_normalization fw a g))"
  from batch_normalization_run[OF r, of fw g] obtain res g' where
    run: "batch_normalization fw a g = (res, g')" and
    build: "batch_normalization_build fw a
        (if bn_axis a < 0 then bn_axis a + int (length (shape (bn_inputs a))) else bn_axis a)
        [shape (bn_inputs a) !
           nat (if bn_axis a < 0 then bn_axis a + int (length (shape (bn_inputs a)))
                else bn_axis a)]
        (if dtype (bn_inputs a) = Float16 then Float32 else dtype (bn_inputs a))
        (if \<not> is_trainable fw \<or> \<not> bn_trainable a then False else bn_training a)
        (case bn_name a of Some n \<Rightarrow> n | None \<Rightarrow> unique_str fw (id_count g) ''BatchNorm_'')
        (case bn_name a of Some n \<Rightarrow> g | None \<Rightarrow> g\<lparr>id_count := Suc (id_count g)\<rparr>)
       = (res, g')"
    by (elim exE conjE)
  note b = batch_normalization_build_run[OF build, unfolded trace_named]
  from run have ad: "added g (batch_normalization fw a g) = drop (length (trace g)) (trace g')"
    by (simp add: added_def)
  from c have "c \<in> set (drop (length (trace g)) (trace g'))" by (simp only: ad)
  from b[THEN conjunct2, THEN conjunct1, THEN bspec, OF this]
  show "param_shape c \<in> {None, Some [shape (bn_inputs a) !
             nat (if bn_axis a < 0 then bn_axis a + int (length (shape (bn_inputs a)))
                  else bn_axis a)]}"
    and "\<forall>n t ins outs attrs. c = UserOp n t ins outs attrs \<longrightarrow>
                map_of attrs ''axis'' = Some (AttrInt
                  (if bn_axis a < 0 then bn_axis a + int (length (shape (bn_inputs a)))
                   else bn_axis a))"
    by simp_all
next
  assume r: "- int (length (shape (bn_inputs a))) \<le> bn_axis a
        \<and> bn_axis a < int (length (shape (bn_inputs a)))"
    and ret: "returns (batch_normalization fw a g)"
  from batch_normalization_run[OF r, of fw g] obtain res g' where
    run: "batch_normalization fw a g = (res, g')" and
    build: "batch_normalization_build fw a
        (if bn_axis a < 0 then bn_axis a + int (length (shape (bn_inputs a))) else bn_axis a)
        [shape (bn_inputs a) !
           nat (if bn_axis a < 0 then bn_axis a + int (length (shape (bn_inputs a)))
                else bn_axis a)]
        (if dtype (bn_inputs a) = Float16 then Float32 else dtype (bn_inputs a))
        (if \<not> is_trainable fw \<or> \<not> bn_trainable a then False else bn_training a)
        (case bn_name a of Some n \<Rightarrow> n | None \<Rightarrow> unique_str fw (id_count g) ''BatchNorm_'')
        (case bn_name a of Some n \<Rightarrow> g | None \<Rightarrow> g\<lparr>id_count := Suc (id_count g)\<rparr>)
       = (res, g')"
    by (elim exE conjE)
  note b = batch_normalization_build_run[OF build, unfolded trace_named]
  from run have ad: "added g (batch_normalization fw a g) = drop (length (trace g)) (trace g')"
    by (simp add: added_def)
  from ret run obtain bl where "res = Inr bl" by (cases res) (simp_all add: returns_def)
  from b[THEN conjunct2, THEN conjunct2, THEN spec, THEN mp, OF this]
  show "map param_shape (added g (batch_normalization fw a g)) =
             replicate 4 (Some [shape (bn_inputs a) !
               nat (if bn_axis a < 0 then bn_axis a + int (length (shape (bn_inputs a)))
                    else bn_axis a)]) @ [None]"
    unfolding ad by (elim conjE)
qed

theorem batch_normalization_axis_witness:
  "fst (batch_normalization permissive (batch_normalization_defaults\<lparr>bn_axis := 4\<rparr>)
      empty_graph) = Inl AssertionError
   \<and> map param_shape (added empty_graph
        (batch_normalization permissive batch_normalization_defaults empty_graph))
      = [Some [32], Some [32], Some [32], Some [32], None]"
proof -
  have r: "returns (batch_normalization permissive batch_normalization_defaults empty_graph)"
    by (simp add: returns_def batch_normalization_defs call_defs monad_defs example_defs)
  from r
    batch_normalization_axis
      [of "batch_normalization_defaults\<lparr>bn_axis := 4\<rparr>" permissive empty_graph]
    batch_normalization_axis [of batch_normalization_defaults permissive empty_graph]
  show ?thesis
    by (simp add: batch_normalization_defaults_def nchw_input_def numeral_eq_Suc)
qed

lemma batch_normalization_build_op:
  assumes "batch_normalization_build fw a ax ps pd tr nm g = (Inr b, g')"
  shows "\<exists>ins attrs.
      drop (length (trace g)) (trace g') ! 4 =
        UserOp nm ''normalization'' ins
          (''y'' # (if bn_trainable a \<and> tr then [''mean'', ''inv_variance''] else [])) attrs
      \<and> length (drop (length (trace g)) (trace g')) = 5
      \<and> map_of attrs ''training'' = Some (AttrBool tr)
      \<and> map_of ins ''x'' = Some [bn_inputs a]
      \<and> map_of ins ''moving_mean'' = Some [out_blob fw (drop (length (trace g)) (trace g') ! 2) 0]
      \<and> map_of ins ''moving_variance'' =
          Some [out_blob fw (drop (length (trace g)) (trace g') ! 3) 0]
      \<and> b = out_blob fw (drop (length (trace g)) (trace g') ! 4) 0"
  using assms unfolding batch_normalization_build_def
  apply (simp add: invoke_list_first)
  apply (simp only: returning)
  apply (cases "bn_center a"; cases "bn_scale a")
  apply (elim exE conjE disjE; simp add: numeral_eq_Suc)+
  done

text \<open>
  C10: in every call of \<open>batch_normalization\<close> the variables named \<open>-moving_mean\<close>
  and \<open>-moving_variance\<close> are asked for with \<open>trainable=False\<close> (and a call that returns
  has created both, third and fourth); the op's \<open>training\<close> attribute is \<open>False\<close>
  whenever \<open>trainable\<close> is false or the enclosing global function is not trainable,
  and the \<open>training\<close> argument otherwise; the op's outputs are \<open>y\<close>, followed by
  \<open>mean\<close> and \<open>inv_variance\<close> exactly when \<open>trainable\<close> and that forced flag both hold.
  A call that returns has built that op, \<open>normalization\<close>, as its fifth and last call,
  on \<open>inputs\<close> and the two moving variables, and returns its first output.
\<close>

theorem batch_normalization_training:
  "(\<forall>c\<in>set (added g (batch_normalization fw a g)).
       (\<forall>v n. c = GetVariable v
          \<and> (v_name v = n @ ''-moving_mean'' \<or> v_name v = n @ ''-moving_variance'')
          \<longrightarrow> \<not> v_trainable v)
     \<and> (\<forall>n t ins outs attrs. c = UserOp n t ins outs attrs \<longrightarrow>
          map_of attrs ''training'' = Some (AttrBool
            (if \<not> is_trainable fw \<or> \<not> bn_trainable a then False else bn_training a))
          \<and> outs = ''y'' #
              (if bn_trainable a
                  \<and> (if \<not> is_trainable fw \<or> \<not> bn_trainable a then False else bn_training a)
               then [''mean'', ''inv_variance''] else [])))
   \<and> (returns (batch_normalization fw a g) \<longrightarrow>
        (\<exists>mm mv nm. added g (batch_normalization fw a g) ! 2 = GetVariable mm
           \<and> v_name mm = nm @ ''-moving_mean''
           \<and> added g (batch_normalization fw a g) ! 3 = GetVariable mv
           \<and> v_name mv = nm @ ''-moving_variance''))
   \<and> (returns (batch_normalization fw a g) \<longrightarrow>
        (\<exists>ins attrs.
           added g (batch_normalization fw a g) ! 4 =
             UserOp (case bn_name a of Some n \<Rightarrow> n
                     | None \<Rightarrow> unique_str fw (id_count g) ''BatchNorm_'')
               ''normalization'' ins
               (''y'' #
                 (if bn_trainable a
                     \<and> (if \<not> is_trainable fw \<or> \<not> bn_trainable a then False
                         else bn_training a)
                  then [''mean'', ''inv_variance''] else []))
               attrs
           \<and> length (added g (batch_normalization fw a g)) = 5
           \<and> map_of attrs ''training'' = Some (AttrBool
               (if \<not> is_trainable fw \<or> \<not> bn_trainable a then False else bn_training a))
           \<and> map_of ins ''x'' = Some [bn_inputs a]
           \<and> map_of ins ''moving_mean'' =
               Some [out_blob fw (added g (batch_normalization fw a g) ! 2) 0]
           \<and> map_of ins ''moving_variance'' =
               Some [out_blob fw (added g (batch_normalization fw a g) ! 3) 0]
           \<and> fst (batch_normalization fw a g) =
               Inr (out_blob fw (added g (batch_normalization fw a g) ! 4) 0)))"
proof (cases "- int (length (shape (bn_inputs a))) \<le> bn_axis a
        \<and> bn_axis a < int (length (shape (bn_inputs a)))")
  case False
  then have "batch_normalization fw a g = (Inl AssertionError, g)"
    by (simp add: batch_normalization_cases)
  then show ?thesis by (simp add: added_def returns_def)
next
  case True
  from batch_normalization_run[OF True, of fw g] obtain res g' where
    run: "batch_normalization fw a g = (res, g')" and
    build: "batch_normalization_build fw a
        (if bn_axis a < 0 then bn_axis a + int (length (shape (bn_inputs a))) else bn_axis a)
        [shape (bn_inputs a) !
           nat (if bn_axis a < 0 then bn_axis a + int (length (shape (bn_inputs a)))
                else bn_axis a)]
        (if dtype (bn_inputs a) = Float16 then Float32 else dtype (bn_inputs a))
        (if \<not> is_trainable fw \<or> \<not> bn_trainable a then False else bn_training a)
        (case bn_name a of Some n \<Rightarrow> n | None \<Rightarrow> unique_str fw (id_count g) ''BatchNorm_'')
        (case bn_name a of Some n \<Rightarrow> g | None \<Rightarrow> g\<lparr>id_count := Suc (id_count g)\<rparr>)
       = (res, g')"
    by (elim exE conjE)
  note b = batch_normalization_build_run[OF build, unfolded trace_named]
  from run have ad: "added g (batch_normalization fw a g) = drop (length (trace g)) (trace g')"
    by (simp add: added_def)
  show ?thesis
  proof (intro conjI ballI impI)
    fix c assume "c \<in> set (added g (batch_normalization fw a g))"
    then have "c \<in> set (drop (length (trace g)) (trace g'))" by (simp only: ad)
    from b[THEN conjunct2, THEN conjunct1, THEN bspec, OF this]
    show "\<forall>v n. c = GetVariable v
          \<and> (v_name v = n @ ''-moving_mean'' \<or> v_name v = n @ ''-moving_variance'')
          \<longrightarrow> \<not> v_trainable v"
      and "\<forall>n t ins outs attrs. c = UserOp n t ins outs attrs \<longrightarrow>
          map_of attrs ''training'' = Some (AttrBool
            (if \<not> is_trainable fw \<or> \<not> bn_trainable a then False else bn_training a))
          \<and> outs = ''y'' #
              (if bn_trainable a
                  \<and> (if \<not> is_trainable fw \<or> \<not> bn_trainable a then False else bn_training a)
               then [''mean'', ''inv_variance''] else [])"
      by simp_all
  next
    assume "returns (batch_normalization fw a g)"
    with run obtain bl where "res = Inr bl" by (cases res) (simp_all add: returns_def)
    from b[THEN conjunct2, THEN conjunct2, THEN spec, THEN mp, OF this]
    show "\<exists>mm mv nm. added g (batch_normalization fw a g) ! 2 = GetVariable mm
           \<and> v_name mm = nm @ ''-moving_mean''
           \<and> added g (batch_normalization fw a g) ! 3 = GetVariable mv
           \<and> v_name mv = nm @ ''-moving_variance''"
      unfolding ad by (elim conjE)
  next
    assume "returns (batch_normalization fw a g)"
    with run obtain bl where bl: "res = Inr bl" by (cases res) (simp_all add: returns_def)
    from build bl have "batch_normalization_build fw a
        (if bn_axis a < 0 then bn_axis a + int (length (shape (bn_inputs a))) else bn_axis a)
        [shape (bn_inputs a) !
           nat (if bn_axis a < 0 then bn_axis a + int (length (shape (bn_inputs a)))
                else bn_axis a)]
        (if dtype (bn_inputs a) = Float16 then Float32 else dtype (bn_inputs a))
        (if \<not> is_trainable fw \<or> \<not> bn_trainable a then False else bn_training a)
        (case bn_name a of Some n \<Rightarrow> n | None \<Rightarrow> unique_str fw (id_count g) ''BatchNorm_'')
        (case bn_name a of Some n \<Rightarrow> g | None \<Rightarrow> g\<lparr>id_count := Suc (id_count g)\<rparr>)
       = (Inr bl, g')"
      by simp
    from batch_normalization_build_op[OF this, unfolded trace_named]
    show "\<exists>ins attrs.
           added g (batch_normalization fw a g) ! 4 =
             UserOp (case bn_name a of Some n \<Rightarrow> n
                     | None \<Rightarrow> unique_str fw (id_count g) ''BatchNorm_'')
               ''normalization'' ins
               (''y'' #
                 (if bn_trainable a
                     \<and> (if \<not> is_trainable fw \<or> \<not> bn_trainable a then False
                         else bn_training a)
                  then [''mean'', ''inv_variance''] else []))
               attrs
           \<and> length (added g (batch_normalization fw a g)) = 5
           \<and> map_of attrs ''training'' = Some (AttrBool
               (if \<not> is_trainable fw \<or> \<not> bn_trainable a then False else bn_training a))
           \<and> map_of ins ''x'' = Some [bn_inputs a]
           \<and> map_of ins ''moving_mean'' =
               Some [out_blob fw (added g (batch_normalization fw a g) ! 2) 0]
           \<and> map_of ins ''moving_variance'' =
               Some [out_blob fw (added g (batch_normalization fw a g) ! 3) 0]
           \<and> fst (batch_normalization fw a g) =
               Inr (out_blob fw (added g (batch_normalization fw a g) ! 4) 0)"
      unfolding ad using run bl by simp
  qed
qed

theorem batch_normalization_training_witness:
  "(\<exists>mm mv. added empty_graph
        (batch_normalization permissive batch_normalization_defaults empty_graph) ! 2
        = GetVariable mm \<and> \<not> v_trainable mm
      \<and> added empty_graph
        (batch_normalization permissive batch_normalization_defaults empty_graph) ! 3
        = GetVariable mv \<and> \<not> v_trainable mv)
   \<and> (\<exists>ins attrs. added empty_graph
        (batch_normalization permissive batch_normalization_defaults empty_graph) ! 4
        = UserOp ''BatchNorm_0'' ''normalization'' ins [''y'', ''mean'', ''inv_variance''] attrs
      \<and> map_of attrs ''training'' = Some (AttrBool True))
   \<and> (\<exists>ins attrs. added empty_graph
        (batch_normalization permissive (batch_normalization_defaults\<lparr>bn_trainable := False\<rparr>)
           empty_graph) ! 4
        = UserOp ''BatchNorm_0'' ''normalization'' ins [''y''] attrs
      \<and> map_of attrs ''training'' = Some (AttrBool False))"
proof -
  let ?A = "added empty_graph
        (batch_normalization permissive batch_normalization_defaults empty_graph)"
  have r: "returns (batch_normalization permissive batch_normalization_defaults empty_graph)"
    by (simp add: returns_def batch_normalization_defs call_defs monad_defs example_defs)
  have r': "returns (batch_normalization permissive
      (batch_normalization_defaults\<lparr>bn_trainable := False\<rparr>) empty_graph)"
    by (simp add: returns_def batch_normalization_defs call_defs monad_defs example_defs)
  have l: "length ?A = 5"
    by (simp add: batch_normalization_defs call_defs monad_defs example_defs)
  note t = batch_normalization_training [of empty_graph permissive batch_normalization_defaults]
  note t' = batch_normalization_training
    [of empty_graph permissive "batch_normalization_defaults\<lparr>bn_trainable := False\<rparr>"]
  from t[THEN conjunct2, THEN conjunct1, THEN mp, OF r] obtain mm mv nm where
    x: "?A ! 2 = GetVariable mm" "v_name mm = nm @ ''-moving_mean''"
    "?A ! 3 = GetVariable mv" "v_name mv = nm @ ''-moving_variance''"
    by (elim conjE exE)
  from l have m: "?A ! 2 \<in> set ?A" "?A ! 3 \<in> set ?A" by simp_all
  from t[THEN conjunct1, THEN bspec, OF m(1), THEN conjunct1] x(1,2)
  have "\<not> v_trainable mm" by blast
  moreover from t[THEN conjunct1, THEN bspec, OF m(2), THEN conjunct1] x(3,4)
  have "\<not> v_trainable mv" by blast
  moreover from t[THEN conjunct2, THEN conjunct2, THEN mp, OF r]
  have "\<exists>ins attrs. ?A ! 4
        = UserOp ''BatchNorm_0'' ''normalization'' ins [''y'', ''mean'', ''inv_variance''] attrs
      \<and> map_of attrs ''training'' = Some (AttrBool True)"
    by (auto simp: batch_normalization_defaults_def permissive_def empty_graph_def)
  moreover from t'[THEN conjunct2, THEN conjunct2, THEN mp, OF r']
  have "\<exists>ins attrs. added empty_graph
        (batch_normalization permissive (batch_normalization_defaults\<lparr>bn_trainable := False\<rparr>)
           empty_graph) ! 4
        = UserOp ''BatchNorm_0'' ''normalization'' ins [''y''] attrs
      \<and> map_of attrs ''training'' = Some (AttrBool False)"
    by (auto simp: batch_normalization_defaults_def permissive_def empty_graph_def)
  ultimately show ?thesis using x by blast
qed

section \<open>Runs of dense\<close>

lemmas dense_defs = dense_def dense_prepare_def dense_build_def

lemma last_index: "xs \<noteq> [] \<Longrightarrow> xs ! nat (int (length xs) - 1) = last xs"
  by (simp add: last_conv_nth nat_diff_distrib')

lemma dense_prepare_run:
  assumes "dense_prepare fw a g = (r, g')"
  shows "trace g' = trace g @ drop (length (trace g)) (trace g')
      \<and> (r \<noteq> Inl FrameworkError \<longrightarrow>
           drop (length (trace g)) (trace g') =
             (if 2 < length (shape (dn_inputs a))
              then [Reshape (dn_inputs a) [- 1, last (shape (dn_inputs a))]] else []))
      \<and> (\<forall>p x. r = Inr (p, x) \<longrightarrow>
           x = (if 2 < length (shape (dn_inputs a))
                then out_blob fw (Reshape (dn_inputs a) [- 1, last (shape (dn_inputs a))]) 0
                else dn_inputs a)
           \<and> p = (case dn_name a of Some n \<Rightarrow> n
                    | None \<Rightarrow> unique_str fw (id_count g) ''Dense_''))"
  using assms unfolding dense_prepare_def Let_def
  apply (simp only: runs)
  apply (cases "2 < length (shape (dn_inputs a))")
  apply (elim exE conjE disjE; simp add: last_index cong: option.case_cong)+
  done

lemma dense_build_fails:
  assumes "dense_build fw a p x g = (Inl e, g')" "e \<noteq> FrameworkError"
  shows "g' = g"
  using assms unfolding dense_build_def Let_def
  apply (simp only: failing)
  apply (elim exE conjE disjE; simp)
  done

lemma dense_build_returns:
  assumes "dense_build fw a p x g = (Inr b, g')"
  shows "trace g' = trace g @ drop (length (trace g)) (trace g')
      \<and> (\<exists>ops core.
              filter is_node (drop (length (trace g)) (trace g')) =
                ops @ (if 2 < length (shape (dn_inputs a))
                       then [Reshape (activated fw (dn_activation a) core (p @ ''_activation''))
                              (butlast (shape (dn_inputs a)) @ [dn_units a])]
                       else [])
              \<and> length ops = (if dn_use_bias a then 2 else 1)
              \<and> (if dn_use_bias a then is_bias_add (last ops) else is_matmul (last ops))
              \<and> core = out_blob fw (last ops) 0
              \<and> filter is_callback (drop (length (trace g)) (trace g')) =
                  callbacks (dn_activation a) core (p @ ''_activation'')
              \<and> b = (if 2 < length (shape (dn_inputs a))
                     then out_blob fw
                       (Reshape (activated fw (dn_activation a) core (p @ ''_activation''))
                              (butlast (shape (dn_inputs a)) @ [dn_units a])) 0
                     else activated fw (dn_activation a) core (p @ ''_activation'')))"
  using assms unfolding dense_build_def Let_def
  apply (simp only: returning)
  apply (cases "2 < length (shape (dn_inputs a))"; cases "dn_use_bias a")
  apply (elim exE conjE disjE; simp add: is_node_def activated_def callbacks_def)+
  done

lemma dense_cases:
  assumes "dense fw a g = (r, g')"
  shows "(\<exists>e. dense_prepare fw a g = (Inl e, g') \<and> r = Inl e)
       \<or> (\<exists>p x g1. dense_prepare fw a g = (Inr (p, x), g1)
             \<and> dense_build fw a p x g1 = (r, g'))"
  using assms by (auto simp: dense_def bind_runs)

lemma dense_own_error:
  assumes "own_error (dense fw a g)"
  shows "added g (dense fw a g) =
           (if 2 < length (shape (dn_inputs a))
            then [Reshape (dn_inputs a) [- 1, last (shape (dn_inputs a))]] else [])"
proof -
  from assms obtain e g' where run: "dense fw a g = (Inl e, g')" and e: "e \<noteq> FrameworkError"
    by (rule own_errorE)
  from dense_cases[OF run] show ?thesis
  proof (elim disjE exE conjE)
    fix e' assume p: "dense_prepare fw a g = (Inl e', g')" and "Inl e = Inl e'"
    with e have "Inl e' \<noteq> (Inl FrameworkError :: error + string \<times> blob)" by simp
    with dense_prepare_run[OF p, THEN conjunct2, THEN conjunct1] show ?thesis
      by (simp add: added_def run)
  next
    fix p x g1
    assume p: "dense_prepare fw a g = (Inr (p, x), g1)"
      and b: "dense_build fw a p x g1 = (Inl e, g')"
    from dense_build_fails[OF b e] have "g' = g1" .
    with dense_prepare_run[OF p, THEN conjunct2, THEN conjunct1] show ?thesis
      by (simp add: added_def run)
  qed
qed

lemma dense_returns:
  assumes "returns (dense fw a g)"
  shows "\<exists>ops core.
      filter is_node (added g (dense fw a g)) =
        (if 2 < length (shape (dn_inputs a))
         then [Reshape (dn_inputs a) [- 1, last (shape (dn_inputs a))]] else [])
        @ ops
        @ (if 2 < length (shape (dn_inputs a))
           then [Reshape (activated fw (dn_activation a) core
                   ((case dn_name a of Some n \<Rightarrow> n
                     | None \<Rightarrow> unique_str fw (id_count g) ''Dense_'') @ ''_activation''))
                  (butlast (shape (dn_inputs a)) @ [dn_units a])]
           else [])
      \<and> length ops = (if dn_use_bias a then 2 else 1)
      \<and> (if dn_use_bias a then is_bias_add (last ops) else is_matmul (last ops))
      \<and> core = out_blob fw (last ops) 0
      \<and> filter is_callback (added g (dense fw a g)) =
          callbacks (dn_activation a) core
            ((case dn_name a of Some n \<Rightarrow> n
              | None \<Rightarrow> unique_str fw (id_count g) ''Dense_'') @ ''_activation'')
      \<and> fst (dense fw a g) = Inr
          (if 2 < length (shape (dn_inputs a))
           then out_blob fw
             (Reshape (activated fw (dn_activation a) core
                   ((case dn_name a of Some n \<Rightarrow> n
                     | None \<Rightarrow> unique_str fw (id_count g) ''Dense_'') @ ''_activation''))
                  (butlast (shape (dn_inputs a)) @ [dn_units a])) 0
           else activated fw (dn_activation a) core
                   ((case dn_name a of Some n \<Rightarrow> n
                     | None \<Rightarrow> unique_str fw (id_count g) ''Dense_'') @ ''_activation''))"
proof -
  from assms obtain b g' where run: "dense fw a g = (Inr b, g')" by (rule returnsE)
  from dense_cases[OF run] obtain p x g1 where
    p: "dense_prepare fw a g = (Inr (p, x), g1)" and
    b: "dense_build fw a p x g1 = (Inr b, g')"
    by auto
  note t1 = dense_prepare_run[OF p, THEN conjunct1]
  from dense_prepare_run[OF p, THEN conjunct2, THEN conjunct1] have np: "drop (length (trace g)) (trace g1) =
      (if 2 < length (shape (dn_inputs a))
       then [Reshape (dn_inputs a) [- 1, last (shape (dn_inputs a))]] else [])" by simp
  from dense_prepare_run[OF p, THEN conjunct2, THEN conjunct2] have pn: "p = (case dn_name a of Some n \<Rightarrow> n
                    | None \<Rightarrow> unique_str fw (id_count g) ''Dense_'')" by simp
  note t2 = dense_build_returns[OF b, THEN conjunct1]
  have ad: "added g (dense fw a g) =
      drop (length (trace g)) (trace g1) @ drop (length (trace g1)) (trace g')"
  proof -
    have "trace g' = trace g @ (drop (length (trace g)) (trace g1)
        @ drop (length (trace g1)) (trace g'))"
      using t1 t2 by (metis append.assoc)
    then have "drop (length (trace g)) (trace g') = drop (length (trace g)) (trace g1)
        @ drop (length (trace g1)) (trace g')"
      by (metis append_eq_conv_conj)
    then show ?thesis by (simp add: added_def run)
  qed
  from dense_build_returns[OF b, THEN conjunct2] obtain ops core where oc:
    "filter is_node (drop (length (trace g1)) (trace g')) =
                ops @ (if 2 < length (shape (dn_inputs a))
                       then [Reshape (activated fw (dn_activation a) core (p @ ''_activation''))
                              (butlast (shape (dn_inputs a)) @ [dn_units a])]
                       else [])"
    "length ops = (if dn_use_bias a then 2 else 1)"
    "if dn_use_bias a then is_bias_add (last ops) else is_matmul (last ops)"
    "core = out_blob fw (last ops) 0"
    "filter is_callback (drop (length (trace g1)) (trace g')) =
                  callbacks (dn_activation a) core (p @ ''_activation'')"
    "b = (if 2 < length (shape (dn_inputs a))
                     then out_blob fw
                       (Reshape (activated fw (dn_activation a) core (p @ ''_activation''))
                              (butlast (shape (dn_inputs a)) @ [dn_units a])) 0
                     else activated fw (dn_activation a) core (p @ ''_activation''))"
    by (elim conjE exE)
  show ?thesis
    apply (rule exI[of _ ops], rule exI[of _ core])
    unfolding ad np
    using oc unfolding pn
    by (simp add: is_node_def run)
qed

section \<open>Returning runs of the other constructors\<close>

lemma conv2d_build_returns:
  assumes "conv2d_build fw a p gr ws g = (Inr b, g')"
  shows "trace g' = trace g @ drop (length (trace g)) (trace g')
      \<and> (\<exists>ops core.
              filter is_node (drop (length (trace g)) (trace g')) = ops
              \<and> length ops = (if cv_use_bias a then 2 else 1)
              \<and> (if cv_use_bias a then is_bias_add (last ops) else is_conv2d (last ops))
              \<and> core = out_blob fw (last ops) 0
              \<and> filter is_callback (drop (length (trace g)) (trace g')) =
                  callbacks (cv_activation a) core (p @ ''-activation'')
              \<and> b = activated fw (cv_activation a) core (p @ ''-activation''))"
  using assms unfolding conv2d_build_def
  apply (simp only: returning)
  apply (cases "cv_use_bias a")
  apply (elim exE conjE disjE; simp add: is_node_def activated_def callbacks_def)+
  done

lemma layer_norm_returns:
  assumes "layer_norm fw a g = (Inr b, g')"
  shows "length (filter is_node (drop (length (trace g)) (trace g'))) = 1"
  using assms unfolding layer_norm_def Let_def
  apply (simp add: invoke_list_first split_def)
  apply (simp only: returning)
  apply (cases "ln_center a"; cases "ln_scale a")
  apply (elim exE conjE disjE; simp add: is_node_def)+
  done

lemma layer_norm_grad_returns:
  assumes "layer_norm_grad fw a g = (Inr b, g')"
  shows "length (filter is_node (drop (length (trace g)) (trace g'))) = 1"
  using assms unfolding layer_norm_grad_def
  apply (simp add: invoke_list_first)
  apply (simp only: returning)
  apply (elim exE conjE disjE; simp add: is_node_def)+
  done

lemma layer_norm_param_grad_returns:
  assumes "layer_norm_param_grad fw a g = (Inr b, g')"
  shows "length (filter is_node (drop (length (trace g)) (trace g'))) = 1"
  using assms unfolding layer_norm_param_grad_def
  apply (simp only: returning invoke_list_runs)
  apply (elim exE conjE disjE; simp add: is_node_def return_runs)+
  done

lemma batch_normalization_build_returns:
  assumes "batch_normalization_build fw a ax ps pd tr nm g = (Inr b, g')"
  shows "length (filter is_node (drop (length (trace g)) (trace g'))) =
           1 + (if bn_center a then 0 else 1) + (if bn_scale a then 0 else 1)"
  using assms unfolding batch_normalization_build_def
  apply (simp add: invoke_list_first)
  apply (simp only: returning)
  apply (cases "bn_center a"; cases "bn_scale a")
  apply (elim exE conjE disjE; simp add: is_node_def)+
  done

section \<open>What upsample checks\<close>

lemmas upsample_defs = upsample_def upsample_validate_def upsample_build_def

lemma upsample_scales_cases:
  "upsample_scales sz g =
     (if (\<exists>n. sz = SizeInt n) \<or> (\<exists>xs. sz = SizeSeq xs \<and> length xs = 2)
      then (Inr (case sz of SizeInt n \<Rightarrow> (IntVal n, IntVal n)
                          | SizeSeq xs \<Rightarrow> (xs ! 0, xs ! 1)), g)
      else (Inl AssertionError, g))"
  by (cases sz) (auto simp: monad_defs)

lemma upsample_validate_trace: "trace (snd (upsample_validate fw a g)) = trace g"
  unfolding upsample_validate_def
  by (cases "up_name a") (simp_all add: monad_defs UniqueStr_def upsample_scales_cases)

lemma upsample_cases:
  "upsample fw a g =
     (case upsample_validate fw a g of
        (Inl e, g') \<Rightarrow> (Inl e, g')
      | (Inr (nm, h, w), g') \<Rightarrow> upsample_build fw a nm h w g')"
  by (simp add: upsample_def bindM_def split: prod.splits sum.splits)

lemma upsample_validate_result:
  \<open>fst (upsample_validate fw a g) =
     (if \<not> ((\<exists>n. up_size a = SizeInt n) \<or> (\<exists>xs. up_size a = SizeSeq xs \<and> length xs = 2))
      then Inl AssertionError
      else if up_interpolation a \<noteq> ''nearest'' \<and> up_interpolation a \<noteq> ''bilinear''
      then Inl (ValueError ''interpolation must be "nearest" or "bilinear".'')
      else if upper (up_data_format a) \<noteq> ''NCHW'' \<and> upper (up_data_format a) \<noteq> ''NHWC''
      then Inl (ValueError ''data_format must be "NHWC" or "NCHW".'')
      else Inr (case up_name a of Some n \<Rightarrow> n | None \<Rightarrow> unique_str fw (id_count g) ''Upsample2D_'',
                case up_size a of SizeInt n \<Rightarrow> (IntVal n, IntVal n)
                          | SizeSeq xs \<Rightarrow> (xs ! 0, xs ! 1)))\<close>
  unfolding upsample_validate_def
  by (cases "up_name a") (simp_all add: monad_defs UniqueStr_def upsample_scales_cases)

lemma upsample_validate_fails:
  "fst (upsample_validate fw a g) = Inl e \<Longrightarrow>
     fst (upsample fw a g) = Inl e \<and> snd (upsample fw a g) = snd (upsample_validate fw a g)"
  by (auto simp: upsample_cases split: prod.splits sum.splits)

lemma upsample_build_fails:
  assumes "upsample_build fw a nm h w g = (Inl e, g')" "e \<noteq> FrameworkError"
  shows "trace g' = trace g @
           (if upper (up_data_format a) = ''NHWC'' then [Transpose (up_x a) [0, 3, 1, 2]]
            else [])
         \<and> (float h = Inl e \<or> (\<exists>f. float h = Inr f \<and> float w = Inl e))"
  using assms unfolding upsample_build_def Let_def
  apply (simp only: failing invoke_list_runs)
  apply (cases "upper (up_data_format a) = ''NHWC''")
  apply (elim exE conjE disjE; simp)+
  done

lemma upsample_build_returns:
  assumes "upsample_build fw a nm h w g = (Inr b, g')"
  shows "length (filter is_node (drop (length (trace g)) (trace g'))) =
           (if upper (up_data_format a) = ''NHWC'' then 3 else 1)"
  using assms unfolding upsample_build_def Let_def
  apply (simp only: returning invoke_list_runs)
  apply (cases "upper (up_data_format a) = ''NHWC''")
  apply (elim exE conjE disjE; simp add: is_node_def)+
  done

lemma upsample_run:
  assumes "upsample fw a g = (r, g')"
  shows "(\<exists>e. fst (upsample_validate fw a g) = Inl e \<and> r = Inl e \<and> trace g' = trace g)
       \<or> (\<exists>nm h w g1. upsample_validate fw a g = (Inr (nm, h, w), g1) \<and> trace g1 = trace g
             \<and> upsample_build fw a nm h w g1 = (r, g'))"
proof (cases "upsample_validate fw a g")
  case (Pair v g1)
  note t = upsample_validate_trace[of fw a g]
  show ?thesis
  proof (cases v)
    case (Inl e)
    with Pair assms t show ?thesis by (simp add: upsample_cases)
  next
    case (Inr x)
    with Pair assms t show ?thesis by (cases x) (simp add: upsample_cases)
  qed
qed

lemma float_int_value_error: "float (IntVal n) \<noteq> Inl (ValueError s)"
  by simp

text \<open>
  C7, as the code has it: the assertions on \<open>size\<close> come first, and a \<open>size\<close> that is
  neither an int nor a sequence of length 2 gives \<open>AssertionError\<close>.  With a \<open>size\<close> that
  passes, a call whose \<open>interpolation\<close> is neither \<open>nearest\<close> nor \<open>bilinear\<close>, or whose
  upper-case \<open>data_format\<close> is neither \<open>NCHW\<close> nor \<open>NHWC\<close>, raises \<open>ValueError\<close> before
  any operator node is built.  The only other \<open>ValueError\<close> of a call is that of
  \<open>float()\<close> on an element of \<open>size\<close>, which lines 530 to 537 do not check.  Errors
  raised inside the framework are a class of their own in the model.
\<close>

theorem upsample_value_error:
  \<open>(\<not> ((\<exists>n. up_size a = SizeInt n) \<or> (\<exists>xs. up_size a = SizeSeq xs \<and> length xs = 2)) \<longrightarrow>
      fst (upsample fw a g) = Inl AssertionError \<and> added g (upsample fw a g) = [])
   \<and> (((\<exists>n. up_size a = SizeInt n) \<or> (\<exists>xs. up_size a = SizeSeq xs \<and> length xs = 2))
       \<and> (up_interpolation a \<noteq> ''nearest'' \<and> up_interpolation a \<noteq> ''bilinear''
            \<or> upper (up_data_format a) \<noteq> ''NCHW'' \<and> upper (up_data_format a) \<noteq> ''NHWC'') \<longrightarrow>
      fst (upsample fw a g) = Inl (ValueError
        (if up_interpolation a \<noteq> ''nearest'' \<and> up_interpolation a \<noteq> ''bilinear''
         then ''interpolation must be "nearest" or "bilinear".''
         else ''data_format must be "NHWC" or "NCHW".''))
      \<and> added g (upsample fw a g) = [])
   \<and> (\<forall>s. fst (upsample fw a g) = Inl (ValueError s) \<longrightarrow>
        ((\<exists>n. up_size a = SizeInt n) \<or> (\<exists>xs. up_size a = SizeSeq xs \<and> length xs = 2))
        \<and> (up_interpolation a \<noteq> ''nearest'' \<and> up_interpolation a \<noteq> ''bilinear''
             \<or> upper (up_data_format a) \<noteq> ''NCHW'' \<and> upper (up_data_format a) \<noteq> ''NHWC''
             \<or> (\<exists>h w. up_size a = SizeSeq [h, w]
                   \<and> (float h = Inl (ValueError s)
                        \<or> (\<exists>f. float h = Inr f \<and> float w = Inl (ValueError s))))))\<close>
proof (intro conjI impI allI)
  assume "\<not> ((\<exists>n. up_size a = SizeInt n) \<or> (\<exists>xs. up_size a = SizeSeq xs \<and> length xs = 2))"
  then have "fst (upsample_validate fw a g) = Inl AssertionError"
    unfolding upsample_validate_result by simp
  from upsample_validate_fails[OF this] upsample_validate_trace[of fw a g]
  show "fst (upsample fw a g) = Inl AssertionError" and "added g (upsample fw a g) = []"
    by (simp_all add: added_def)
next
  assume b: \<open>((\<exists>n. up_size a = SizeInt n) \<or> (\<exists>xs. up_size a = SizeSeq xs \<and> length xs = 2))
       \<and> (up_interpolation a \<noteq> ''nearest'' \<and> up_interpolation a \<noteq> ''bilinear''
            \<or> upper (up_data_format a) \<noteq> ''NCHW'' \<and> upper (up_data_format a) \<noteq> ''NHWC'')\<close>
  then have \<open>fst (upsample_validate fw a g) = Inl (ValueError
        (if up_interpolation a \<noteq> ''nearest'' \<and> up_interpolation a \<noteq> ''bilinear''
         then ''interpolation must be "nearest" or "bilinear".''
         else ''data_format must be "NHWC" or "NCHW".''))\<close>
    unfolding upsample_validate_result by auto
  from upsample_validate_fails[OF this] upsample_validate_trace[of fw a g]
  show \<open>fst (upsample fw a g) = Inl (ValueError
        (if up_interpolation a \<noteq> ''nearest'' \<and> up_interpolation a \<noteq> ''bilinear''
         then ''interpolation must be "nearest" or "bilinear".''
         else ''data_format must be "NHWC" or "NCHW".''))\<close>
    and "added g (upsample fw a g) = []"
    by (simp_all add: added_def)
next
  fix s
  assume v: "fst (upsample fw a g) = Inl (ValueError s)"
  obtain g' where run: "upsample fw a g = (Inl (ValueError s), g')"
    using v by (cases "upsample fw a g") simp
  from upsample_run[OF run]
  have "((\<exists>n. up_size a = SizeInt n) \<or> (\<exists>xs. up_size a = SizeSeq xs \<and> length xs = 2))
        \<and> (up_interpolation a \<noteq> ''nearest'' \<and> up_interpolation a \<noteq> ''bilinear''
             \<or> upper (up_data_format a) \<noteq> ''NCHW'' \<and> upper (up_data_format a) \<noteq> ''NHWC''
             \<or> (\<exists>h w. up_size a = SizeSeq [h, w]
                   \<and> (float h = Inl (ValueError s)
                        \<or> (\<exists>f. float h = Inr f \<and> float w = Inl (ValueError s)))))"
  proof (elim disjE exE conjE)
    fix e assume "fst (upsample_validate fw a g) = Inl e" "Inl (ValueError s) = Inl e"
    then have "fst (upsample_validate fw a g) = Inl (ValueError s)" by simp
    then show ?thesis
      unfolding upsample_validate_result by (simp split: if_splits)
  next
    fix nm h w g1
    assume val: "upsample_validate fw a g = (Inr (nm, h, w), g1)"
      and b: "upsample_build fw a nm h w g1 = (Inl (ValueError s), g')"
    from val have r: "fst (upsample_validate fw a g) = Inr (nm, h, w)" by simp
    from r have ok: "(\<exists>n. up_size a = SizeInt n) \<or> (\<exists>xs. up_size a = SizeSeq xs \<and> length xs = 2)"
      unfolding upsample_validate_result by (simp split: if_splits)
    from r have hw: "(h, w) = (case up_size a of SizeInt n \<Rightarrow> (IntVal n, IntVal n)
                          | SizeSeq xs \<Rightarrow> (xs ! 0, xs ! 1))"
      unfolding upsample_validate_result by (simp split: if_splits)
    from upsample_build_fails[OF b]
    have f: "float h = Inl (ValueError s) \<or> (\<exists>f. float h = Inr f \<and> float w = Inl (ValueError s))"
      by simp
    from ok show ?thesis
    proof
      assume "\<exists>n. up_size a = SizeInt n"
      then obtain n where "up_size a = SizeInt n" ..
      with hw have "h = IntVal n" "w = IntVal n" by simp_all
      with f float_int_value_error show ?thesis by blast
    next
      assume "\<exists>xs. up_size a = SizeSeq xs \<and> length xs = 2"
      then obtain xs where xs: "up_size a = SizeSeq xs" "length xs = 2" by blast
      then obtain x y where xy: "xs = [x, y]"
        by (cases xs; cases "tl xs") auto
      with xs hw have "h = x" "w = y" by simp_all
      with f xs xy ok show ?thesis by blast
    qed
  qed
  then show "(\<exists>n. up_size a = SizeInt n) \<or> (\<exists>xs. up_size a = SizeSeq xs \<and> length xs = 2)"
    and \<open>up_interpolation a \<noteq> ''nearest'' \<and> up_interpolation a \<noteq> ''bilinear''
             \<or> upper (up_data_format a) \<noteq> ''NCHW'' \<and> upper (up_data_format a) \<noteq> ''NHWC''
             \<or> (\<exists>h w. up_size a = SizeSeq [h, w]
                   \<and> (float h = Inl (ValueError s)
                        \<or> (\<exists>f. float h = Inr f \<and> float w = Inl (ValueError s))))\<close>
    by blast+
qed

theorem upsample_value_error_witness:
  \<open>fst (upsample permissive (upsample_defaults\<lparr>up_size := SizeOther\<rparr>) empty_graph)
     = Inl AssertionError
   \<and> fst (upsample permissive (upsample_defaults\<lparr>up_interpolation := ''cubic''\<rparr>) empty_graph)
     = Inl (ValueError ''interpolation must be "nearest" or "bilinear".'')
   \<and> added empty_graph
       (upsample permissive (upsample_defaults\<lparr>up_interpolation := ''cubic''\<rparr>) empty_graph) = []
   \<and> float (StrVal ''a'' None) = Inl (ValueError ''could not convert string to float'')\<close>
proof -
  have v: "fst (upsample permissive
      (upsample_defaults\<lparr>up_size := SizeSeq [StrVal ''a'' None, StrVal ''b'' None]\<rparr>)
      empty_graph) = Inl (ValueError ''could not convert string to float'')"
    by (simp add: upsample_defs call_defs monad_defs example_defs)
  from v
    upsample_value_error [of "upsample_defaults\<lparr>up_size := SizeOther\<rparr>" permissive empty_graph]
    upsample_value_error
      [of "upsample_defaults\<lparr>up_interpolation := ''cubic''\<rparr>" permissive empty_graph]
    upsample_value_error
      [of "upsample_defaults\<lparr>up_size := SizeSeq [StrVal ''a'' None, StrVal ''b'' None]\<rparr>"
          permissive empty_graph]
  show ?thesis by (simp add: upsample_defaults_def)
qed

text \<open>
  C7 as stated fails: with \<open>size = ("a", "b")\<close>, which passes the assertions on
  \<open>size\<close>, and the default \<open>interpolation\<close> and \<open>data_format\<close>, the call raises the
  \<open>ValueError\<close> of \<open>float("a")\<close> at line 557.
\<close>

theorem upsample_value_error_counterexample:
  "up_interpolation (upsample_defaults
      \<lparr>up_size := SizeSeq [StrVal ''a'' None, StrVal ''b'' None]\<rparr>) = ''nearest''
   \<and> upper (up_data_format (upsample_defaults
      \<lparr>up_size := SizeSeq [StrVal ''a'' None, StrVal ''b'' None]\<rparr>)) = ''NCHW''
   \<and> fst (upsample permissive (upsample_defaults
      \<lparr>up_size := SizeSeq [StrVal ''a'' None, StrVal ''b'' None]\<rparr>)
      empty_graph) = Inl (ValueError ''could not convert string to float'')"
  by (simp add: upsample_defs call_defs monad_defs example_defs)

section \<open>Errors, operator nodes and the activation over whole calls\<close>

lemma batch_normalization_build_fails:
  assumes "batch_normalization_build fw a ax ps pd tr nm g = (Inl e, g')"
  shows "e = FrameworkError"
  using assms unfolding batch_normalization_build_def
  apply (simp add: invoke_list_first)
  apply (simp only: failing)
  apply (cases "bn_center a"; cases "bn_scale a")
  apply (elim exE conjE disjE; simp)+
  done

lemma batch_normalization_own_error:
  assumes "own_error (batch_normalization fw a g)"
  shows "added g (batch_normalization fw a g) = []"
proof (cases "- int (length (shape (bn_inputs a))) \<le> bn_axis a
        \<and> bn_axis a < int (length (shape (bn_inputs a)))")
  case False
  then have "batch_normalization fw a g = (Inl AssertionError, g)"
    by (simp add: batch_normalization_cases)
  then show ?thesis by (simp add: added_def)
next
  case True
  from assms obtain e g' where run: "batch_normalization fw a g = (Inl e, g')"
    and e: "e \<noteq> FrameworkError"
    by (rule own_errorE)
  from batch_normalization_run[OF True, of fw g] run batch_normalization_build_fails e
  show ?thesis by fastforce
qed

lemma batch_normalization_returns:
  assumes "returns (batch_normalization fw a g)"
  shows "length (filter is_node (added g (batch_normalization fw a g))) =
           1 + (if bn_center a then 0 else 1) + (if bn_scale a then 0 else 1)"
proof (cases "- int (length (shape (bn_inputs a))) \<le> bn_axis a
        \<and> bn_axis a < int (length (shape (bn_inputs a)))")
  case False
  then have "batch_normalization fw a g = (Inl AssertionError, g)"
    by (simp add: batch_normalization_cases)
  with assms show ?thesis by (simp add: returns_def)
next
  case True
  from assms obtain b g' where run: "batch_normalization fw a g = (Inr b, g')"
    by (rule returnsE)
  from batch_normalization_run[OF True, of fw g] run
  have "batch_normalization_build fw a
        (if bn_axis a < 0 then bn_axis a + int (length (shape (bn_inputs a))) else bn_axis a)
        [shape (bn_inputs a) !
           nat (if bn_axis a < 0 then bn_axis a + int (length (shape (bn_inputs a)))
                else bn_axis a)]
        (if dtype (bn_inputs a) = Float16 then Float32 else dtype (bn_inputs a))
        (if \<not> is_trainable fw \<or> \<not> bn_trainable a then False else bn_training a)
        (case bn_name a of Some n \<Rightarrow> n | None \<Rightarrow> unique_str fw (id_count g) ''BatchNorm_'')
        (case bn_name a of Some n \<Rightarrow> g | None \<Rightarrow> g\<lparr>id_count := Suc (id_count g)\<rparr>)
       = (Inr b, g')"
    by simp
  from batch_normalization_build_returns[OF this, unfolded trace_named] run
  show ?thesis by (simp add: added_def)
qed

lemma conv2d_validate_name:
  assumes "conv2d_validate fw a g = (Inr (p, gr, ws), g1)"
  shows "p = (case cv_name a of Some n \<Rightarrow> n
              | None \<Rightarrow> unique_str fw (id_count g) ''Conv2D_'')"
  using assms unfolding conv2d_validate_def
  apply (simp only: returning)
  apply (elim exE conjE disjE; simp cong: option.case_cong)
  done

lemma conv2d_returns:
  assumes "returns (conv2d fw a g)"
  shows "\<exists>ops core.
      filter is_node (added g (conv2d fw a g)) = ops
      \<and> length ops = (if cv_use_bias a then 2 else 1)
      \<and> (if cv_use_bias a then is_bias_add (last ops) else is_conv2d (last ops))
      \<and> core = out_blob fw (last ops) 0
      \<and> filter is_callback (added g (conv2d fw a g)) =
          callbacks (cv_activation a) core
            ((case cv_name a of Some n \<Rightarrow> n
              | None \<Rightarrow> unique_str fw (id_count g) ''Conv2D_'') @ ''-activation'')
      \<and> fst (conv2d fw a g) = Inr (activated fw (cv_activation a) core
            ((case cv_name a of Some n \<Rightarrow> n
              | None \<Rightarrow> unique_str fw (id_count g) ''Conv2D_'') @ ''-activation''))"
proof -
  from assms obtain b g' where run: "conv2d fw a g = (Inr b, g')" by (rule returnsE)
  then obtain p gr ws g1 where
    v: "conv2d_validate fw a g = (Inr (p, gr, ws), g1)" and
    b: "conv2d_build fw a p gr ws g1 = (Inr b, g')"
    by (auto simp: conv2d_cases split: prod.splits sum.splits)
  from conv2d_validate_trace[of fw a g] v have t: "trace g1 = trace g" by simp
  note pn = conv2d_validate_name[OF v]
  from conv2d_build_returns[OF b, THEN conjunct2] show ?thesis
    unfolding t pn by (simp add: added_def run)
qed

lemma upsample_own_error:
  assumes "own_error (upsample fw u g)"
  shows "added g (upsample fw u g) =
          (if ((\<exists>n. up_size u = SizeInt n) \<or> (\<exists>xs. up_size u = SizeSeq xs \<and> length xs = 2))
              \<and> (up_interpolation u = ''nearest'' \<or> up_interpolation u = ''bilinear'')
              \<and> upper (up_data_format u) = ''NHWC''
           then [Transpose (up_x u) [0, 3, 1, 2]] else [])"
proof -
  from assms obtain e g' where run: "upsample fw u g = (Inl e, g')" and e: "e \<noteq> FrameworkError"
    by (rule own_errorE)
  from upsample_run[OF run] show ?thesis
  proof (elim disjE exE conjE)
    fix e' assume v: "fst (upsample_validate fw u g) = Inl e'" and t: "trace g' = trace g"
    from v have "\<not> (((\<exists>n. up_size u = SizeInt n) \<or> (\<exists>xs. up_size u = SizeSeq xs \<and> length xs = 2))
              \<and> (up_interpolation u = ''nearest'' \<or> up_interpolation u = ''bilinear'')
              \<and> upper (up_data_format u) = ''NHWC'')"
      unfolding upsample_validate_result by (auto split: if_splits)
    with t show ?thesis by (simp add: added_def run)
  next
    fix nm h w g1
    assume v: "upsample_validate fw u g = (Inr (nm, h, w), g1)" and t: "trace g1 = trace g"
      and b: "upsample_build fw u nm h w g1 = (Inl e, g')"
    from v have "fst (upsample_validate fw u g) = Inr (nm, h, w)" by simp
    then have ok: "((\<exists>n. up_size u = SizeInt n) \<or> (\<exists>xs. up_size u = SizeSeq xs \<and> length xs = 2))
              \<and> (up_interpolation u = ''nearest'' \<or> up_interpolation u = ''bilinear'')"
      unfolding upsample_validate_result by (auto split: if_splits)
    from upsample_build_fails[OF b e, THEN conjunct1] t ok show ?thesis
      by (simp add: added_def run)
  qed
qed

lemma upsample_returns:
  assumes "returns (upsample fw a g)"
  shows "length (filter is_node (added g (upsample fw a g))) =
           (if upper (up_data_format a) = ''NHWC'' then 3 else 1)"
proof -
  from assms obtain b g' where run: "upsample fw a g = (Inr b, g')" by (rule returnsE)
  then obtain nm h w g1 where
    v: "upsample_validate fw a g = (Inr (nm, h, w), g1)" and
    b: "upsample_build fw a nm h w g1 = (Inr b, g')"
    by (auto simp: upsample_cases split: prod.splits sum.splits)
  from upsample_validate_trace[of fw a g] v have t: "trace g1 = trace g" by simp
  from upsample_build_returns[OF b] show ?thesis
    unfolding t by (simp add: added_def run)
qed

text \<open>
  C2, as the code has it: an error the file raises itself (a failed assertion, a
  \<open>ValueError\<close>, an index out of range) comes before any variable or operator node in
  \<open>conv2d\<close> and \<open>batch_normalization\<close>, and so do the checks of \<open>upsample\<close> on
  \<open>size\<close>, \<open>interpolation\<close> and \<open>data_format\<close>.  In \<open>dense\<close> no variable has been
  created either, but on an input with more than 2 axes the reshape of line 72 has been
  built: it comes before the assertions on \<open>model_distribute\<close>.  In \<open>upsample\<close> a call
  that passes the checks can still raise in \<open>float()\<close> of a \<open>size\<close> element, after the
  transpose for \<open>NHWC\<close> has been built.
\<close>

theorem own_errors_before_calls:
  "(own_error (conv2d fw c g) \<longrightarrow> added g (conv2d fw c g) = [])
   \<and> (own_error (batch_normalization fw b g) \<longrightarrow> added g (batch_normalization fw b g) = [])
   \<and> (own_error (upsample fw u g) \<longrightarrow>
        added g (upsample fw u g) =
          (if ((\<exists>n. up_size u = SizeInt n) \<or> (\<exists>xs. up_size u = SizeSeq xs \<and> length xs = 2))
              \<and> (up_interpolation u = ''nearest'' \<or> up_interpolation u = ''bilinear'')
              \<and> upper (up_data_format u) = ''NHWC''
           then [Transpose (up_x u) [0, 3, 1, 2]] else []))
   \<and> (own_error (dense fw d g) \<longrightarrow>
        added g (dense fw d g) =
          (if 2 < length (shape (dn_inputs d))
           then [Reshape (dn_inputs d) [- 1, last (shape (dn_inputs d))]] else []))"
proof (intro conjI impI)
  assume "own_error (conv2d fw c g)"
  from conv2d_own_error[OF this] conv2d_validate_trace[of fw c g]
  show "added g (conv2d fw c g) = []" by (auto simp: added_def)
next
  assume "own_error (batch_normalization fw b g)"
  then show "added g (batch_normalization fw b g) = []"
    by (rule batch_normalization_own_error)
next
  assume "own_error (upsample fw u g)"
  then show "added g (upsample fw u g) =
          (if ((\<exists>n. up_size u = SizeInt n) \<or> (\<exists>xs. up_size u = SizeSeq xs \<and> length xs = 2))
              \<and> (up_interpolation u = ''nearest'' \<or> up_interpolation u = ''bilinear'')
              \<and> upper (up_data_format u) = ''NHWC''
           then [Transpose (up_x u) [0, 3, 1, 2]] else [])"
    by (rule upsample_own_error)
next
  assume "own_error (dense fw d g)"
  then show "added g (dense fw d g) =
          (if 2 < length (shape (dn_inputs d))
           then [Reshape (dn_inputs d) [- 1, last (shape (dn_inputs d))]] else [])"
    by (rule dense_own_error)
qed

theorem own_errors_before_calls_witness:
  "added empty_graph (conv2d permissive (conv2d_defaults\<lparr>cv_groups := IntArg 0\<rparr>) empty_graph)
     = []
   \<and> added empty_graph
       (batch_normalization permissive (batch_normalization_defaults\<lparr>bn_axis := 4\<rparr>)
          empty_graph) = []
   \<and> added empty_graph
       (upsample permissive (upsample_defaults\<lparr>up_interpolation := ''cubic''\<rparr>) empty_graph)
     = []
   \<and> added empty_graph
       (upsample permissive
          (upsample_defaults\<lparr>up_size := SizeSeq [StrVal ''a'' None, StrVal ''b'' None],
             up_data_format := ''NHWC''\<rparr>) empty_graph)
     = [Transpose nchw_input [0, 3, 1, 2]]
   \<and> added empty_graph
       (dense permissive (dense_defaults\<lparr>dn_model_distribute := Split 1\<rparr>) empty_graph)
     = [Reshape seq_input [- 1, 5]]"
proof -
  have 1: "own_error (conv2d permissive (conv2d_defaults\<lparr>cv_groups := IntArg 0\<rparr>) empty_graph)"
    by (simp add: own_error_def conv2d_defs call_defs monad_defs example_defs)
  have 2: "own_error
      (batch_normalization permissive (batch_normalization_defaults\<lparr>bn_axis := 4\<rparr>)
         empty_graph)"
    by (simp add: own_error_def batch_normalization_cases example_defs)
  have 3: "own_error
      (upsample permissive (upsample_defaults\<lparr>up_interpolation := ''cubic''\<rparr>) empty_graph)"
    by (simp add: own_error_def upsample_defs call_defs monad_defs example_defs)
  have 4: "own_error
      (dense permissive (dense_defaults\<lparr>dn_model_distribute := Split 1\<rparr>) empty_graph)"
    by (simp add: own_error_def dense_defs call_defs monad_defs example_defs)
  have 5: "own_error
      (upsample permissive
          (upsample_defaults\<lparr>up_size := SizeSeq [StrVal ''a'' None, StrVal ''b'' None],
             up_data_format := ''NHWC''\<rparr>) empty_graph)"
    by (simp add: own_error_def upsample_defs call_defs monad_defs example_defs)
  from 5
    own_errors_before_calls
      [of permissive conv2d_defaults empty_graph batch_normalization_defaults
          "upsample_defaults\<lparr>up_size := SizeSeq [StrVal ''a'' None, StrVal ''b'' None],
             up_data_format := ''NHWC''\<rparr>" dense_defaults]
  have 6: "added empty_graph
       (upsample permissive
          (upsample_defaults\<lparr>up_size := SizeSeq [StrVal ''a'' None, StrVal ''b'' None],
             up_data_format := ''NHWC''\<rparr>) empty_graph)
     = [Transpose nchw_input [0, 3, 1, 2]]"
    by (simp add: upsample_defaults_def upper_def upper_char_def)
  from 1 2 3 4 6
    own_errors_before_calls
      [of permissive "conv2d_defaults\<lparr>cv_groups := IntArg 0\<rparr>" empty_graph
          "batch_normalization_defaults\<lparr>bn_axis := 4\<rparr>"
          "upsample_defaults\<lparr>up_interpolation := ''cubic''\<rparr>"
          "dense_defaults\<lparr>dn_model_distribute := Split 1\<rparr>"]
  show ?thesis by (simp add: dense_defaults_def seq_input_def upsample_defaults_def)
qed

text \<open>
  C2 as stated fails: \<open>dense\<close> on a 3-axis input with \<open>model_distribute = split(1)\<close>
  raises the \<open>AssertionError\<close> of line 74 after the reshape node has been built.
\<close>

theorem dense_model_distribute_counterexample:
  "2 < length (shape (dn_inputs (dense_defaults\<lparr>dn_model_distribute := Split 1\<rparr>)))
   \<and> fst (dense permissive (dense_defaults\<lparr>dn_model_distribute := Split 1\<rparr>) empty_graph)
       = Inl AssertionError
   \<and> trace (snd (dense permissive (dense_defaults\<lparr>dn_model_distribute := Split 1\<rparr>)
       empty_graph)) = [Reshape seq_input [- 1, 5]]
   \<and> is_node (Reshape seq_input [- 1, 5])"
  by (simp add: is_node_def dense_defs call_defs monad_defs example_defs)

text \<open>
  C3, as the code has it: a call that returns has built, beside its variables and the
  activation callback, between one and four operator nodes: \<open>dense\<close> the matmul, the
  bias add when \<open>use_bias\<close>, and two reshapes when the input has more than 2 axes;
  \<open>conv2d\<close> the convolution and the bias add when \<open>use_bias\<close>; \<open>layer_norm\<close>,
  \<open>layer_norm_grad\<close> and \<open>layer_norm_param_grad\<close> one op; \<open>batch_normalization\<close> its op
  and one constant for each of \<open>center\<close> and \<open>scale\<close> that is false; \<open>upsample\<close> its
  op, and two transposes for \<open>NHWC\<close>.
\<close>

theorem operator_node_counts:
  "(returns (dense fw d g) \<longrightarrow>
      length (filter is_node (added g (dense fw d g))) =
        1 + (if dn_use_bias d then 1 else 0)
          + (if 2 < length (shape (dn_inputs d)) then 2 else 0))
   \<and> (returns (conv2d fw c g) \<longrightarrow>
      length (filter is_node (added g (conv2d fw c g))) = 1 + (if cv_use_bias c then 1 else 0))
   \<and> (returns (layer_norm fw l g) \<longrightarrow>
      length (filter is_node (added g (layer_norm fw l g))) = 1)
   \<and> (returns (layer_norm_grad fw lg g) \<longrightarrow>
      length (filter is_node (added g (layer_norm_grad fw lg g))) = 1)
   \<and> (returns (layer_norm_param_grad fw lp g) \<longrightarrow>
      length (filter is_node (added g (layer_norm_param_grad fw lp g))) = 1)
   \<and> (returns (batch_normalization fw b g) \<longrightarrow>
      length (filter is_node (added g (batch_normalization fw b g))) =
        1 + (if bn_center b then 0 else 1) + (if bn_scale b then 0 else 1))
   \<and> (returns (upsample fw u g) \<longrightarrow>
      length (filter is_node (added g (upsample fw u g))) =
        (if upper (up_data_format u) = ''NHWC'' then 3 else 1))"
proof (intro conjI impI)
  assume "returns (dense fw d g)"
  from dense_returns[OF this] show "length (filter is_node (added g (dense fw d g))) =
        1 + (if dn_use_bias d then 1 else 0)
          + (if 2 < length (shape (dn_inputs d)) then 2 else 0)"
    by (elim exE conjE) simp
next
  assume "returns (conv2d fw c g)"
  from conv2d_returns[OF this]
  show "length (filter is_node (added g (conv2d fw c g))) = 1 + (if cv_use_bias c then 1 else 0)"
    by (elim exE conjE) simp
next
  assume "returns (layer_norm fw l g)"
  then obtain b g' where run: "layer_norm fw l g = (Inr b, g')" by (rule returnsE)
  from layer_norm_returns[OF run]
  show "length (filter is_node (added g (layer_norm fw l g))) = 1"
    by (simp add: added_def run)
next
  assume "returns (layer_norm_grad fw lg g)"
  then obtain b g' where run: "layer_norm_grad fw lg g = (Inr b, g')" by (rule returnsE)
  from layer_norm_grad_returns[OF run]
  show "length (filter is_node (added g (layer_norm_grad fw lg g))) = 1"
    by (simp add: added_def run)
next
  assume "returns (layer_norm_param_grad fw lp g)"
  then obtain b g' where run: "layer_norm_param_grad fw lp g = (Inr b, g')" by (rule returnsE)
  from layer_norm_param_grad_returns[OF run]
  show "length (filter is_node (added g (layer_norm_param_grad fw lp g))) = 1"
    by (simp add: added_def run)
next
  assume "returns (batch_normalization fw b g)"
  then show "length (filter is_node (added g (batch_normalization fw b g))) =
        1 + (if bn_center b then 0 else 1) + (if bn_scale b then 0 else 1)"
    by (rule batch_normalization_returns)
next
  assume "returns (upsample fw u g)"
  then show "length (filter is_node (added g (upsample fw u g))) =
        (if upper (up_data_format u) = ''NHWC'' then 3 else 1)"
    by (rule upsample_returns)
qed

lemmas layer_norm_defs = layer_norm_def layer_norm_grad_def layer_norm_param_grad_def
  slice_from_def

theorem operator_node_counts_witness:
  "length (filter is_node (added empty_graph (dense permissive dense_defaults empty_graph))) = 4
   \<and> length (filter is_node (added empty_graph
        (conv2d permissive conv2d_defaults empty_graph))) = 2
   \<and> length (filter is_node (added empty_graph
        (layer_norm permissive layer_norm_defaults empty_graph))) = 1
   \<and> length (filter is_node (added empty_graph
        (layer_norm_grad permissive layer_norm_grad_defaults empty_graph))) = 1
   \<and> length (filter is_node (added empty_graph
        (layer_norm_param_grad permissive layer_norm_param_grad_defaults empty_graph))) = 1
   \<and> length (filter is_node (added empty_graph
        (batch_normalization permissive (batch_normalization_defaults\<lparr>bn_center := False\<rparr>)
           empty_graph))) = 2
   \<and> length (filter is_node (added empty_graph
        (upsample permissive (upsample_defaults\<lparr>up_data_format := ''nhwc''\<rparr>)
           empty_graph))) = 3"
proof -
  have 1: "returns (dense permissive dense_defaults empty_graph)"
    by (simp add: returns_def dense_defs call_defs monad_defs example_defs)
  have 2: "returns (conv2d permissive conv2d_defaults empty_graph)"
    by (simp add: returns_def conv2d_defs call_defs monad_defs example_defs)
  have 3: "returns (layer_norm permissive layer_norm_defaults empty_graph)"
    by (simp add: returns_def layer_norm_defs call_defs monad_defs example_defs)
  have 4: "returns (layer_norm_grad permissive layer_norm_grad_defaults empty_graph)"
    by (simp add: returns_def layer_norm_defs call_defs monad_defs example_defs)
  have 5: "returns (layer_norm_param_grad permissive layer_norm_param_grad_defaults
      empty_graph)"
    by (simp add: returns_def layer_norm_defs call_defs monad_defs example_defs
        numeral_eq_Suc)
  have 6: "returns (batch_normalization permissive
      (batch_normalization_defaults\<lparr>bn_center := False\<rparr>) empty_graph)"
    by (simp add: returns_def batch_normalization_defs call_defs monad_defs example_defs)
  have 7: "returns (upsample permissive (upsample_defaults\<lparr>up_data_format := ''nhwc''\<rparr>)
      empty_graph)"
    by (simp add: returns_def upsample_defs call_defs monad_defs example_defs float_limit_def)
  from 1 2 3 4 5 6 7
    operator_node_counts
      [of permissive dense_defaults empty_graph conv2d_defaults layer_norm_defaults
          layer_norm_grad_defaults layer_norm_param_grad_defaults
          "batch_normalization_defaults\<lparr>bn_center := False\<rparr>"
          "upsample_defaults\<lparr>up_data_format := ''nhwc''\<rparr>"]
  show ?thesis
    by (simp add: dense_defaults_def seq_input_def conv2d_defaults_def
        batch_normalization_defaults_def upsample_defaults_def upper_def upper_char_def)
qed

text \<open>
  C3 as stated fails: \<open>dense\<close> on a 3-axis input with \<open>use_bias\<close> and an activation
  builds four operator nodes (reshape, matmul, bias add, reshape).
\<close>

theorem dense_node_count_counterexample:
  "2 < length (shape (dn_inputs (dense_defaults\<lparr>dn_activation := Some ''relu''\<rparr>)))
   \<and> dn_use_bias (dense_defaults\<lparr>dn_activation := Some ''relu''\<rparr>)
   \<and> returns (dense permissive (dense_defaults\<lparr>dn_activation := Some ''relu''\<rparr>) empty_graph)
   \<and> length (filter is_node (trace (snd
        (dense permissive (dense_defaults\<lparr>dn_activation := Some ''relu''\<rparr>) empty_graph))))
       = 4"
  by (simp add: returns_def is_node_def dense_defs call_defs monad_defs example_defs)




section \<open>What a returning call takes and gives back\<close>

lemma dense_build_surface:
  assumes "dense_build fw a p x g = (Inr b, g')"
  shows "trace g' = trace g @ drop (length (trace g)) (trace g')
      \<and> (\<exists>k\<in>set (drop (length (trace g)) (trace g')). b = out_blob fw k 0)
      \<and> (\<exists>k\<in>set (drop (length (trace g)) (trace g')). x \<in> set (call_inputs k))"
  using assms unfolding dense_build_def Let_def
  apply (simp only: returning)
  apply (cases "2 < length (shape (dn_inputs a))"; cases "dn_use_bias a")
  apply (elim exE conjE disjE; simp)+
  done

lemma dense_surface:
  assumes run: "dense fw a g = (Inr b, g')"
  shows "(\<exists>k\<in>set (drop (length (trace g)) (trace g')). b = out_blob fw k 0)
      \<and> (\<exists>k\<in>set (drop (length (trace g)) (trace g')). dn_inputs a \<in> set (call_inputs k))"
proof -
  from dense_cases[OF run] obtain p x g1 where
    p: "dense_prepare fw a g = (Inr (p, x), g1)" and
    b: "dense_build fw a p x g1 = (Inr b, g')"
    by auto
  note t1 = dense_prepare_run[OF p, THEN conjunct1]
  from dense_prepare_run[OF p, THEN conjunct2, THEN conjunct1]
  have np: "drop (length (trace g)) (trace g1) =
      (if 2 < length (shape (dn_inputs a))
       then [Reshape (dn_inputs a) [- 1, last (shape (dn_inputs a))]] else [])" by simp
  from dense_prepare_run[OF p, THEN conjunct2, THEN conjunct2]
  have x: "x = (if 2 < length (shape (dn_inputs a))
                then out_blob fw (Reshape (dn_inputs a) [- 1, last (shape (dn_inputs a))]) 0
                else dn_inputs a)" by simp
  note s = dense_build_surface[OF b]
  note t2 = s[THEN conjunct1]
  have d: "drop (length (trace g)) (trace g') =
      drop (length (trace g)) (trace g1) @ drop (length (trace g1)) (trace g')"
    by (subst t2, subst t1) simp
  from s[THEN conjunct2, THEN conjunct1]
  have 1: "\<exists>k\<in>set (drop (length (trace g)) (trace g')). b = out_blob fw k 0"
    unfolding d by auto
  have 2: "\<exists>k\<in>set (drop (length (trace g)) (trace g')). dn_inputs a \<in> set (call_inputs k)"
  proof (cases "2 < length (shape (dn_inputs a))")
    case True
    with np show ?thesis unfolding d by simp
  next
    case False
    with x s[THEN conjunct2, THEN conjunct2] show ?thesis unfolding d by auto
  qed
  from 1 2 show ?thesis by simp
qed

lemma conv2d_build_surface:
  assumes "conv2d_build fw a p gr ws g = (Inr b, g')"
  shows "(\<exists>k\<in>set (drop (length (trace g)) (trace g')). b = out_blob fw k 0)
      \<and> (\<exists>k\<in>set (drop (length (trace g)) (trace g')). cv_inputs a \<in> set (call_inputs k))"
  using assms unfolding conv2d_build_def
  apply (simp only: returning)
  apply (cases "cv_use_bias a")
  apply (elim exE conjE disjE; simp)+
  done

lemma conv2d_surface:
  assumes run: "conv2d fw a g = (Inr b, g')"
  shows "(\<exists>k\<in>set (drop (length (trace g)) (trace g')). b = out_blob fw k 0)
      \<and> (\<exists>k\<in>set (drop (length (trace g)) (trace g')). cv_inputs a \<in> set (call_inputs k))"
proof -
  from run obtain p gr ws g1 where
    v: "conv2d_validate fw a g = (Inr (p, gr, ws), g1)" and
    b: "conv2d_build fw a p gr ws g1 = (Inr b, g')"
    by (auto simp: conv2d_cases split: prod.splits sum.splits)
  from conv2d_validate_trace[of fw a g] v have t: "trace g1 = trace g" by simp
  from conv2d_build_surface[OF b] show ?thesis unfolding t .
qed

lemma layer_norm_surface:
  assumes "layer_norm fw a g = (Inr b, g')"
  shows "(\<exists>k\<in>set (drop (length (trace g)) (trace g')). b = out_blob fw k 0)
      \<and> (\<exists>k\<in>set (drop (length (trace g)) (trace g')). ln_inputs a \<in> set (call_inputs k))"
  using assms unfolding layer_norm_def Let_def
  apply (simp add: invoke_list_first split_def)
  apply (simp only: returning)
  apply (cases "ln_center a"; cases "ln_scale a")
  apply (elim exE conjE disjE; simp)+
  done

lemma layer_norm_grad_surface:
  assumes "layer_norm_grad fw a g = (Inr b, g')"
  shows "(\<exists>k\<in>set (drop (length (trace g)) (trace g')). b = out_blob fw k 0)
      \<and> (\<exists>k\<in>set (drop (length (trace g)) (trace g')).
            lg_dy a \<in> set (call_inputs k) \<and> lg_x a \<in> set (call_inputs k)
            \<and> lg_mean a \<in> set (call_inputs k) \<and> lg_inv_variance a \<in> set (call_inputs k))"
  using assms unfolding layer_norm_grad_def
  apply (simp add: invoke_list_first)
  apply (simp only: returning)
  apply (elim exE conjE disjE; simp)+
  done

lemma layer_norm_param_grad_surface:
  assumes "layer_norm_param_grad fw a g = (Inr b, g')"
  shows "\<exists>k\<in>set (drop (length (trace g)) (trace g')).
           b = (out_blob fw k 0, out_blob fw k 1, out_blob fw k 2)
           \<and> lp_dy a \<in> set (call_inputs k) \<and> lp_norm a \<in> set (call_inputs k)
           \<and> lp_gamma a \<in> set (call_inputs k)"
  using assms unfolding layer_norm_param_grad_def
  apply (simp only: returning invoke_list_runs)
  apply (elim exE conjE disjE; simp add: return_runs numeral_2_eq_2)+
  done

lemma batch_normalization_build_surface:
  assumes "batch_normalization_build fw a ax ps pd tr nm g = (Inr b, g')"
  shows "(\<exists>k\<in>set (drop (length (trace g)) (trace g')). b = out_blob fw k 0)
      \<and> (\<exists>k\<in>set (drop (length (trace g)) (trace g')). bn_inputs a \<in> set (call_inputs k))"
  using assms unfolding batch_normalization_build_def
  apply (simp add: invoke_list_first)
  apply (simp only: returning)
  apply (cases "bn_center a"; cases "bn_scale a")
  apply (elim exE conjE disjE; simp)+
  done

lemma batch_normalization_surface:
  assumes run: "batch_normalization fw a g = (Inr b, g')"
  shows "(\<exists>k\<in>set (drop (length (trace g)) (trace g')). b = out_blob fw k 0)
      \<and> (\<exists>k\<in>set (drop (length (trace g)) (trace g')). bn_inputs a \<in> set (call_inputs k))"
proof -
  from run obtain ax ps pd tr nm where
    b: "batch_normalization_build fw a ax ps pd tr nm
          (case bn_name a of Some n \<Rightarrow> g | None \<Rightarrow> g\<lparr>id_count := Suc (id_count g)\<rparr>)
        = (Inr b, g')"
    by (auto simp: batch_normalization_cases split: if_splits)
  from batch_normalization_build_surface[OF b, unfolded trace_named] show ?thesis .
qed

lemma upsample_build_surface:
  assumes "upsample_build fw a nm h w g = (Inr b, g')"
  shows "(\<exists>k\<in>set (drop (length (trace g)) (trace g')). b = out_blob fw k 0)
      \<and> (\<exists>k\<in>set (drop (length (trace g)) (trace g')). up_x a \<in> set (call_inputs k))"
  using assms unfolding upsample_build_def Let_def
  apply (simp only: returning invoke_list_runs)
  apply (cases "upper (up_data_format a) = ''NHWC''")
  apply (elim exE conjE disjE; simp)+
  done

lemma upsample_surface:
  assumes run: "upsample fw a g = (Inr b, g')"
  shows "(\<exists>k\<in>set (drop (length (trace g)) (trace g')). b = out_blob fw k 0)
      \<and> (\<exists>k\<in>set (drop (length (trace g)) (trace g')). up_x a \<in> set (call_inputs k))"
proof -
  from upsample_run[OF run] obtain nm h w g1 where
    t: "trace g1 = trace g" and b: "upsample_build fw a nm h w g1 = (Inr b, g')"
    by auto
  from upsample_build_surface[OF b] show ?thesis unfolding t .
qed

lemma single_run:
  assumes "fst (bindM m (\<lambda>y. return [y]) g) = Inr hs"
  shows "\<exists>b g'. m g = (Inr b, g') \<and> hs = [b]
           \<and> snd (bindM m (\<lambda>y. return [y]) g) = g'"
  using assms by (auto simp: bindM_def return_def split: prod.splits sum.splits)

lemma triple_run:
  assumes "fst (bindM m (\<lambda>(x, y, z). return [x, y, z]) g) = Inr hs"
  shows "\<exists>x y z g'. m g = (Inr (x, y, z), g') \<and> hs = [x, y, z]
           \<and> snd (bindM m (\<lambda>(x, y, z). return [x, y, z]) g) = g'"
  using assms by (auto simp: bindM_def return_def split: prod.splits sum.splits)

text \<open>
  C4, as the code has it: the decorators export the seven functions, each under
  \<open>layers.\<close> followed by the name of its \<open>def\<close>, except \<open>upsample\<close>, which is exported as
  \<open>layers.upsample_2d\<close>.  Each of the seven takes at least one tensor handle; on a call
  that returns, every tensor handle it was given is an input of a framework call the
  function has made, and what it returns is the first output of such a call (for
  \<open>layer_norm_param_grad\<close>, the first three outputs of its op).
\<close>

theorem exported_surface:
  "(map_of oneflow_export n = Some f) =
      (n = (if f = Upsample then ''layers.upsample_2d'' else ''layers.'' @ def_name f))
   \<and> tensor_args a \<noteq> []
   \<and> (\<forall>hs. fst (call_layer fw a g) = Inr hs \<longrightarrow>
         (\<exists>k\<in>set (added g (call_layer fw a g)).
             hs = map (out_blob fw k)
                    [0..<(if layer_of a = LayerNormParamGrad then 3 else 1)])
         \<and> (\<forall>x\<in>set (tensor_args a).
               \<exists>k\<in>set (added g (call_layer fw a g)). x \<in> set (call_inputs k)))"
proof (intro conjI allI impI)
  show "(map_of oneflow_export n = Some f) =
      (n = (if f = Upsample then ''layers.upsample_2d'' else ''layers.'' @ def_name f))"
    by (cases f) (auto simp: oneflow_export_def)
next
  show "tensor_args a \<noteq> []" by (cases a) simp_all
next
  fix hs assume r: "fst (call_layer fw a g) = Inr hs"
  have "(\<exists>k\<in>set (added g (call_layer fw a g)).
          hs = map (out_blob fw k) [0..<(if layer_of a = LayerNormParamGrad then 3 else 1)])
      \<and> (\<forall>x\<in>set (tensor_args a).
            \<exists>k\<in>set (added g (call_layer fw a g)). x \<in> set (call_inputs k))"
  proof (cases a)
    case (DenseArgs x)
    from single_run[OF r[unfolded DenseArgs call_layer.simps]] obtain b g' where
      run: "dense fw x g = (Inr b, g')" and hs: "hs = [b]" and
      g': "snd (bindM (dense fw x) (\<lambda>y. return [y]) g) = g'"
      by blast
    from dense_surface[OF run] hs g' show ?thesis
      by (simp add: DenseArgs added_def)
  next
    case (Conv2dArgs x)
    from single_run[OF r[unfolded Conv2dArgs call_layer.simps]] obtain b g' where
      run: "conv2d fw x g = (Inr b, g')" and hs: "hs = [b]" and
      g': "snd (bindM (conv2d fw x) (\<lambda>y. return [y]) g) = g'"
      by blast
    from conv2d_surface[OF run] hs g' show ?thesis
      by (simp add: Conv2dArgs added_def)
  next
    case (LayerNormArgs x)
    from single_run[OF r[unfolded LayerNormArgs call_layer.simps]] obtain b g' where
      run: "layer_norm fw x g = (Inr b, g')" and hs: "hs = [b]" and
      g': "snd (bindM (layer_norm fw x) (\<lambda>y. return [y]) g) = g'"
      by blast
    from layer_norm_surface[OF run] hs g' show ?thesis
      by (simp add: LayerNormArgs added_def)
  next
    case (LayerNormGradArgs x)
    from single_run[OF r[unfolded LayerNormGradArgs call_layer.simps]] obtain b g' where
      run: "layer_norm_grad fw x g = (Inr b, g')" and hs: "hs = [b]" and
      g': "snd (bindM (layer_norm_grad fw x) (\<lambda>y. return [y]) g) = g'"
      by blast
    from layer_norm_grad_surface[OF run] hs g' show ?thesis
      by (auto simp: LayerNormGradArgs added_def)
  next
    case (LayerNormParamGradArgs x)
    from triple_run[OF r[unfolded LayerNormParamGradArgs call_layer.simps]]
    obtain b1 b2 b3 g' where
      run: "layer_norm_param_grad fw x g = (Inr (b1, b2, b3), g')" and
      hs: "hs = [b1, b2, b3]" and
      g': "snd (bindM (layer_norm_param_grad fw x) (\<lambda>(x, y, z). return [x, y, z]) g) = g'"
      by blast
    from layer_norm_param_grad_surface[OF run] hs g' show ?thesis
      by (auto simp: LayerNormParamGradArgs added_def upt_rec numeral_2_eq_2)
  next
    case (BatchNormalizationArgs x)
    from single_run[OF r[unfolded BatchNormalizationArgs call_layer.simps]] obtain b g' where
      run: "batch_normalization fw x g = (Inr b, g')" and hs: "hs = [b]" and
      g': "snd (bindM (batch_normalization fw x) (\<lambda>y. return [y]) g) = g'"
      by blast
    from batch_normalization_surface[OF run] hs g' show ?thesis
      by (simp add: BatchNormalizationArgs added_def)
  next
    case (UpsampleArgs x)
    from single_run[OF r[unfolded UpsampleArgs call_layer.simps]] obtain b g' where
      run: "upsample fw x g = (Inr b, g')" and hs: "hs = [b]" and
      g': "snd (bindM (upsample fw x) (\<lambda>y. return [y]) g) = g'"
      by blast
    from upsample_surface[OF run] hs g' show ?thesis
      by (simp add: UpsampleArgs added_def)
  qed
  then show "\<exists>k\<in>set (added g (call_layer fw a g)).
          hs = map (out_blob fw k) [0..<(if layer_of a = LayerNormParamGrad then 3 else 1)]"
    and "\<forall>x\<in>set (tensor_args a).
          \<exists>k\<in>set (added g (call_layer fw a g)). x \<in> set (call_inputs k)"
    by simp_all
qed

theorem exported_surface_witness:
  "map_of oneflow_export ''layers.upsample_2d'' = Some Upsample
   \<and> map_of oneflow_export ''layers.conv2d'' = Some Conv2d
   \<and> (\<exists>k\<in>set (added empty_graph
         (call_layer permissive (LayerNormParamGradArgs layer_norm_param_grad_defaults)
            empty_graph)).
         fst (call_layer permissive (LayerNormParamGradArgs layer_norm_param_grad_defaults)
            empty_graph) = Inr (map (out_blob permissive k) [0..<3]))
   \<and> (\<exists>k\<in>set (added empty_graph
         (call_layer permissive (LayerNormParamGradArgs layer_norm_param_grad_defaults)
            empty_graph)).
         seq_input \<in> set (call_inputs k))
   \<and> (\<exists>k\<in>set (added empty_graph
         (call_layer permissive (UpsampleArgs upsample_defaults) empty_graph)).
         fst (call_layer permissive (UpsampleArgs upsample_defaults) empty_graph)
           = Inr [out_blob permissive k 0])
   \<and> (\<exists>k\<in>set (added empty_graph
         (call_layer permissive (UpsampleArgs upsample_defaults) empty_graph)).
         nchw_input \<in> set (call_inputs k))"
proof -
  have 1: "fst (call_layer permissive (LayerNormParamGradArgs layer_norm_param_grad_defaults)
      empty_graph)
     = Inr (map (out_blob permissive
         (UserOp ''LayerNormGrad_0'' ''layer_norm_param_grad''
            [(''dy'', [seq_input]), (''normalized'', [seq_input]), (''gamma'', [seq_input])]
            [''normalized_diff'', ''beta_diff'', ''gamma_diff'', ''reduce_buf'']
            [(''begin_params_axis'', AttrInt (- 1))])) [0..<3])"
    by (simp add: layer_norm_defs call_defs monad_defs example_defs numeral_eq_Suc upt_rec)
  have 2: "fst (call_layer permissive (UpsampleArgs upsample_defaults) empty_graph)
     = Inr [out_blob permissive
         (UserOp ''Upsample2D_0'' ''upsample'' [(''x'', [nchw_input])] [''y'']
            [(''height_scale'', AttrFloat (FloatOfInt 2)),
             (''width_scale'', AttrFloat (FloatOfInt 2)),
             (''data_format'', AttrStr ''channels_first''),
             (''interpolation'', AttrStr ''nearest'')]) 0]"
    by (simp add: upsample_defs call_defs monad_defs example_defs float_limit_def
        numeral_eq_Suc)
  note a = exported_surface
      [of "''layers.upsample_2d''" Upsample
          "LayerNormParamGradArgs layer_norm_param_grad_defaults" permissive empty_graph]
  note b = exported_surface
      [of "''layers.conv2d''" Conv2d "UpsampleArgs upsample_defaults" permissive empty_graph]
  from a[THEN conjunct1] b[THEN conjunct1]
    a[THEN conjunct2, THEN conjunct2, THEN spec, THEN mp, OF 1]
    b[THEN conjunct2, THEN conjunct2, THEN spec, THEN mp, OF 2]
  show ?thesis
    unfolding 1 2
    by (simp add: layer_norm_param_grad_defaults_def upsample_defaults_def)
qed

theorem export_upsample_counterexample:
  "map_of oneflow_export (''layers.'' @ def_name Upsample) = None
   \<and> map_of oneflow_export ''layers.upsample_2d'' = Some Upsample"
  by (simp add: oneflow_export_def)

end
